theory Spec2Isabelle
  imports Complex_Main
begin

section \<open>Python values\<close>

text \<open>
  The extractor of \<^verbatim>\<open>src/pygen/date_api_extractor.py\<close> works on dynamically typed
  values: parsed JSON, query-string parameters, the objects a page script returns. They
  are the datatype \<open>pyval\<close>. A \<^verbatim>\<open>dict\<close> keeps its insertion order, so it is an
  association list; \<open>map_of\<close> is the lookup. A \<^verbatim>\<open>float\<close> is carried by the text
  \<^verbatim>\<open>str()\<close> gives for it (\<^verbatim>\<open>0.0\<close>, \<^verbatim>\<open>200.0\<close>, \<^verbatim>\<open>1e+22\<close>), which is all the code ever
  asks of one. Strings are lists of characters; the model covers ASCII text.

  A leading underscore of a Python name is dropped (\<^verbatim>\<open>_validate_response\<close> is
  \<open>validate_response\<close>). The message texts of the source are Chinese; where a message
  is a value, it is either a constructor or an English gloss.
\<close>

datatype pyval =
    PNone
  | PBool bool
  | PInt int
  | PFloat string
  | PStr string
  | PList "pyval list"
  | PDict "(string \<times> pyval) list"

type_synonym pydict = "(string \<times> pyval) list"

fun py_truthy :: "pyval \<Rightarrow> bool" where
  "py_truthy PNone = False"
| "py_truthy (PBool b) = b"
| "py_truthy (PInt i) = (i \<noteq> 0)"
| "py_truthy (PFloat s) = (s \<noteq> ''0.0'' \<and> s \<noteq> ''-0.0'')"
| "py_truthy (PStr s) = (s \<noteq> [])"
| "py_truthy (PList xs) = (xs \<noteq> [])"
| "py_truthy (PDict d) = (d \<noteq> [])"

text \<open>\<^verbatim>\<open>d.get(k)\<close>: the value, or \<^verbatim>\<open>None\<close>.\<close>

definition dict_get :: "pydict \<Rightarrow> string \<Rightarrow> pyval" where
  "dict_get d k = (case map_of d k of None \<Rightarrow> PNone | Some v \<Rightarrow> v)"

text \<open>\<^verbatim>\<open>d.get(k, dflt)\<close>.\<close>

definition dict_get_default :: "pydict \<Rightarrow> string \<Rightarrow> pyval \<Rightarrow> pyval" where
  "dict_get_default d k dflt = (case map_of d k of None \<Rightarrow> dflt | Some v \<Rightarrow> v)"

text \<open>\<^verbatim>\<open>a or b\<close>.\<close>

definition py_or :: "pyval \<Rightarrow> pyval \<Rightarrow> pyval" where
  "py_or a b = (if py_truthy a then a else b)"

section \<open>Response validation\<close>

text \<open>
  \<^verbatim>\<open>_validate_response(data)\<close> returns \<^verbatim>\<open>(is_valid, data_count, error)\<close>. The error
  text is one of five messages; two of them carry a value of the response.
\<close>

datatype vreason =
    Unparsable            \<comment> \<open>the response could not be parsed as JSON\<close>
  | NotAnObject           \<comment> \<open>the response is not an object\<close>
  | SuccessFalse pyval    \<comment> \<open>\<^verbatim>\<open>message or error or\<close> the default text\<close>
  | ErrorCode pyval       \<comment> \<open>the text names the value of \<^verbatim>\<open>code\<close>\<close>
  | NoData                \<comment> \<open>no data list found, or the list is empty\<close>

definition data_keys :: "string list" where
  "data_keys = [''data'', ''result'', ''list'', ''items'', ''records'', ''rows'',
                ''content'', ''reports'', ''articles'']"

text \<open>\<^verbatim>\<open>data.get('success') is False\<close>.\<close>

definition success_false :: "pydict \<Rightarrow> bool" where
  "success_false d = (dict_get d ''success'' = PBool False)"

text \<open>
  \<^verbatim>\<open>code in (None, 0, 200, '0', '200', 'success')\<close>: membership compares with
  \<^verbatim>\<open>==\<close>, so \<^verbatim>\<open>False\<close>, \<^verbatim>\<open>0.0\<close> and \<^verbatim>\<open>200.0\<close> are members too.
\<close>

fun code_is_ok :: "pyval \<Rightarrow> bool" where
  "code_is_ok PNone = True"
| "code_is_ok (PBool b) = (\<not> b)"
| "code_is_ok (PInt i) = (i = 0 \<or> i = 200)"
| "code_is_ok (PFloat s) = (s = ''0.0'' \<or> s = ''-0.0'' \<or> s = ''200.0'')"
| "code_is_ok (PStr s) = (s = ''0'' \<or> s = ''200'' \<or> s = ''success'')"
| "code_is_ok (PList xs) = False"
| "code_is_ok (PDict d) = False"

definition error_code :: "pydict \<Rightarrow> bool" where
  "error_code d = (\<not> code_is_ok (dict_get d ''code'') \<and> py_truthy (dict_get d ''code''))"

text \<open>The inner loop over \<^verbatim>\<open>sub_key\<close>: the first key of the value that holds a list.\<close>

fun count_nested :: "pydict \<Rightarrow> string list \<Rightarrow> int \<Rightarrow> int" where
  "count_nested v [] c = c"
| "count_nested v (k # ks) c =
     (case map_of v k of
        Some (PList xs) \<Rightarrow> int (length xs)
      | _ \<Rightarrow> count_nested v ks c)"

text \<open>
  The outer loop over \<^verbatim>\<open>key\<close>. A list ends it; a nested object only ends the inner
  loop, so later keys are still visited and may overwrite the count.
\<close>

fun count_keys :: "pydict \<Rightarrow> string list \<Rightarrow> int \<Rightarrow> int" where
  "count_keys d [] c = c"
| "count_keys d (k # ks) c =
     (case map_of d k of
        Some (PList xs) \<Rightarrow> int (length xs)
      | Some (PDict v) \<Rightarrow> count_keys d ks (count_nested v data_keys c)
      | _ \<Rightarrow> count_keys d ks c)"

text \<open>
  The \<^verbatim>\<open>pageHelp\<close> shape. \<^verbatim>\<open>isinstance(total, int)\<close> holds of a \<^verbatim>\<open>bool\<close> too
  (\<^verbatim>\<open>True\<close> counts as 1).
\<close>

definition count_page_help :: "pydict \<Rightarrow> int \<Rightarrow> int" where
  "count_page_help d c =
     (case map_of d ''pageHelp'' of
        Some (PDict page_help) \<Rightarrow>
          (let c1 = (case dict_get_default page_help ''data'' (PList []) of
                       PList data_list \<Rightarrow> max c (int (length data_list))
                     | _ \<Rightarrow> c)
           in case dict_get_default page_help ''total'' (PInt 0) of
                PInt n \<Rightarrow> if n > 0 then max c1 (min n 100) else c1
              | PBool b \<Rightarrow> if b then max c1 1 else c1
              | _ \<Rightarrow> c1)
      | _ \<Rightarrow> c)"

definition count_items :: "pydict \<Rightarrow> int" where
  "count_items d = count_page_help d (count_keys d data_keys 0)"

definition validate_response :: "pyval \<Rightarrow> bool \<times> int \<times> vreason option" where
  "validate_response data =
     (case data of
        PNone \<Rightarrow> (False, 0, Some Unparsable)
      | PDict d \<Rightarrow>
          if success_false d
          then (False, 0,
                Some (SuccessFalse (py_or (dict_get d ''message'')
                        (py_or (dict_get d ''error'') (PStr ''API returned success=false'')))))
          else if error_code d
          then (False, 0, Some (ErrorCode (dict_get d ''code'')))
          else let data_count = count_items d
               in if data_count = 0 then (False, 0, Some NoData)
                  else (True, data_count, None)
      | _ \<Rightarrow> (False, 0, Some NotAnObject))"

section \<open>Strings and patterns\<close>

text \<open>
  Case mapping is \<^verbatim>\<open>str.lower()\<close> and \<^verbatim>\<open>str.upper()\<close> on ASCII text, white space
  is what \<^verbatim>\<open>str.strip()\<close> and the pattern \<^verbatim>\<open>\s\<close> accept among the ASCII characters
  (tab, line feed, vertical tab, form feed, carriage return, the four separators
  \<^verbatim>\<open>\x1c\<close> to \<^verbatim>\<open>\x1f\<close>, and the blank), and a digit is \<^verbatim>\<open>\d\<close> on ASCII text.
\<close>

definition lower_char :: "char \<Rightarrow> char" where
  "lower_char c =
     (case map_of (zip ''ABCDEFGHIJKLMNOPQRSTUVWXYZ'' ''abcdefghijklmnopqrstuvwxyz'') c of
        Some l \<Rightarrow> l | None \<Rightarrow> c)"

definition upper_char :: "char \<Rightarrow> char" where
  "upper_char c =
     (case map_of (zip ''abcdefghijklmnopqrstuvwxyz'' ''ABCDEFGHIJKLMNOPQRSTUVWXYZ'') c of
        Some u \<Rightarrow> u | None \<Rightarrow> c)"

definition lower :: "string \<Rightarrow> string" where
  "lower s = map lower_char s"

definition upper :: "string \<Rightarrow> string" where
  "upper s = map upper_char s"

definition is_digit :: "char \<Rightarrow> bool" where
  "is_digit c = (c \<in> set ''0123456789'')"

definition is_space :: "char \<Rightarrow> bool" where
  "is_space c =
     (c \<in> {CHR 0x09, CHR 0x0A, CHR 0x0B, CHR 0x0C, CHR 0x0D,
            CHR 0x1C, CHR 0x1D, CHR 0x1E, CHR 0x1F, CHR '' ''})"

definition strip :: "string \<Rightarrow> string" where
  "strip s = rev (dropWhile is_space (rev (dropWhile is_space s)))"

text \<open>\<^verbatim>\<open>s.startswith(p)\<close> and \<^verbatim>\<open>tok in s\<close>.\<close>

fun startswith :: "string \<Rightarrow> string \<Rightarrow> bool" where
  "startswith s [] = True"
| "startswith [] (p # ps) = False"
| "startswith (c # cs) (p # ps) = (c = p \<and> startswith cs ps)"

fun contains :: "string \<Rightarrow> string \<Rightarrow> bool" where
  "contains [] tok = (tok = [])"
| "contains (c # cs) tok = (startswith (c # cs) tok \<or> contains cs tok)"

definition endswith :: "string \<Rightarrow> string \<Rightarrow> bool" where
  "endswith s p = startswith (rev s) (rev p)"

text \<open>\<^verbatim>\<open>any(tok in s for tok in toks)\<close>.\<close>

definition contains_any :: "string \<Rightarrow> string list \<Rightarrow> bool" where
  "contains_any s toks = list_ex (contains s) toks"

text \<open>
  The value patterns of \<^verbatim>\<open>DATE_VALUE_PATTERNS\<close> are built from three items: a digit
  \<^verbatim>\<open>\d\<close>, a literal character, and a run of white space \<^verbatim>\<open>\s+\<close>. Each pattern is
  anchored by \<^verbatim>\<open>^\<close> and \<^verbatim>\<open>$\<close> and is applied to \<^verbatim>\<open>value.strip()\<close>, which has no
  trailing line feed, so \<^verbatim>\<open>re.match\<close> succeeds exactly when the items consume the whole
  text.
\<close>

datatype vitem = Dig | Lit char | Spaces

fun match_value :: "vitem list \<Rightarrow> string \<Rightarrow> bool" where
  "match_value [] s = (s = [])"
| "match_value (i # is) [] = False"
| "match_value (Dig # is) (c # cs) = (is_digit c \<and> match_value is cs)"
| "match_value (Lit x # is) (c # cs) = (c = x \<and> match_value is cs)"
| "match_value (Spaces # is) (c # cs) =
     (is_space c \<and> (match_value (Spaces # is) cs \<or> match_value is cs))"

definition DATE_VALUE_PATTERNS :: "(vitem list \<times> string) list" where
  "DATE_VALUE_PATTERNS =
     [([Dig, Dig, Dig, Dig, Lit CHR ''-'', Dig, Dig, Lit CHR ''-'', Dig, Dig], ''YYYY-MM-DD''),
      (replicate 8 Dig, ''YYYYMMDD''),
      ([Dig, Dig, Dig, Dig, Lit CHR ''/'', Dig, Dig, Lit CHR ''/'', Dig, Dig], ''YYYY/MM/DD''),
      (replicate 10 Dig, ''timestamp_s''),
      (replicate 13 Dig, ''timestamp_ms''),
      ([Dig, Dig, Dig, Dig, Lit CHR ''-'', Dig, Dig, Lit CHR ''-'', Dig, Dig, Spaces,
        Dig, Dig, Lit CHR '':'', Dig, Dig, Lit CHR '':'', Dig, Dig], ''YYYY-MM-DD HH:MM:SS'')]"

text \<open>
  The loop \<^verbatim>\<open>for pattern, fmt in self.DATE_VALUE_PATTERNS: if re.match(pattern,
  v.strip()): ...; break\<close>: the format of the first pattern that matches.
\<close>

fun first_format :: "(vitem list \<times> string) list \<Rightarrow> string \<Rightarrow> string option" where
  "first_format [] v = None"
| "first_format ((pat, fmt) # ps) v =
     (if match_value pat (strip v) then Some fmt else first_format ps v)"

definition value_format_of :: "string \<Rightarrow> string option" where
  "value_format_of v = first_format DATE_VALUE_PATTERNS v"

text \<open>
  The name patterns of \<^verbatim>\<open>DATE_PARAM_PATTERNS\<close> all carry \<^verbatim>\<open>(?i)\<close> and are built from
  literal words and the optional separator \<^verbatim>\<open>[_-]?\<close>. \<^verbatim>\<open>re.match\<close> anchors at the
  start of the key only, so a pattern matches when it consumes a prefix of the key.
\<close>

datatype nitem = Word string | OptSep

fun match_name :: "nitem list \<Rightarrow> string \<Rightarrow> bool" where
  "match_name [] s = True"
| "match_name (Word w # is) s =
     (length w \<le> length s \<and> lower (take (length w) s) = lower w
      \<and> match_name is (drop (length w) s))"
| "match_name (OptSep # is) s =
     ((case s of [] \<Rightarrow> False | c # cs \<Rightarrow> (c = CHR ''_'' \<or> c = CHR ''-'') \<and> match_name is cs)
      \<or> match_name is s)"

definition DATE_PARAM_PATTERNS :: "nitem list list" where
  "DATE_PARAM_PATTERNS =
     [[Word ''start'', OptSep, Word ''date''],
      [Word ''begin'', OptSep, Word ''date''],
      [Word ''from'', OptSep, Word ''date''],
      [Word ''date'', OptSep, Word ''from''],
      [Word ''start'', OptSep, Word ''time''],
      [Word ''begin'', OptSep, Word ''time''],
      [Word ''searchDate''],
      [Word ''SEARCH'', OptSep, Word ''DATE''],
      [Word ''START_DATE''],
      [Word ''BEGIN_DATE''],
      [Word ''end'', OptSep, Word ''date''],
      [Word ''to'', OptSep, Word ''date''],
      [Word ''date'', OptSep, Word ''to''],
      [Word ''end'', OptSep, Word ''time''],
      [Word ''endDate''],
      [Word ''END'', OptSep, Word ''DATE''],
      [Word ''END_DATE''],
      [Word ''date''],
      [Word ''time''],
      [Word ''day''],
      [Word ''publish'', OptSep, Word ''date''],
      [Word ''release'', OptSep, Word ''date''],
      [Word ''create'', OptSep, Word ''date'']]"

text \<open>\<^verbatim>\<open>any(re.match(pattern, key) for pattern in self.DATE_PARAM_PATTERNS)\<close>.\<close>

definition name_matches_date :: "string \<Rightarrow> bool" where
  "name_matches_date key = list_ex (\<lambda>pat. match_name pat key) DATE_PARAM_PATTERNS"

section \<open>Recognising date parameters\<close>

text \<open>\<^verbatim>\<open>self._noise_param_names\<close>, set in \<^verbatim>\<open>__init__\<close>.\<close>

definition noise_param_names :: "string list" where
  "noise_param_names =
     [[CHR ''_''], ''__'', ''_t'', ''t'', ''ts'', ''timestamp'', ''_timestamp'', ''_ts'']"

text \<open>Decimal digits of a natural number, and \<^verbatim>\<open>str()\<close> of an integer.\<close>

fun dec_nat :: "nat \<Rightarrow> string" where
  "dec_nat n =
     (if n < 10 then [''0123456789'' ! n] else dec_nat (n div 10) @ [''0123456789'' ! (n mod 10)])"

definition str_int :: "int \<Rightarrow> string" where
  "str_int i = (if i < 0 then CHR ''-'' # dec_nat (nat (- i)) else dec_nat (nat i))"

text \<open>
  \<^verbatim>\<open>str(value)\<close>. The text of a \<^verbatim>\<open>list\<close> or a \<^verbatim>\<open>dict\<close> is abbreviated to its
  brackets: it starts with a bracket or a brace, so no value pattern matches it (a
  list value is handled before \<^verbatim>\<open>str\<close> is called), and where a value is formatted
  into a name or a summary it is a string or a number in every captured record.
\<close>

fun py_str :: "pyval \<Rightarrow> string" where
  "py_str PNone = ''None''"
| "py_str (PBool b) = (if b then ''True'' else ''False'')"
| "py_str (PInt i) = str_int i"
| "py_str (PFloat s) = s"
| "py_str (PStr s) = s"
| "py_str (PList xs) = ''[...]''"
| "py_str (PDict d) = ''{...}''"

text \<open>\<^verbatim>\<open>d[k] = v\<close>: an existing key keeps its position, a new key goes last.\<close>

fun dict_set :: "(string \<times> 'v) list \<Rightarrow> string \<Rightarrow> 'v \<Rightarrow> (string \<times> 'v) list" where
  "dict_set [] k v = [(k, v)]"
| "dict_set ((k', v') # d) k v = (if k' = k then (k, v) # d else (k', v') # dict_set d k v)"

text \<open>
  The formats found in an array value: for each element that is a string, the format
  of the first value pattern it matches.
\<close>

fun date_formats_in_array :: "pyval list \<Rightarrow> string list" where
  "date_formats_in_array [] = []"
| "date_formats_in_array (PStr item # rest) =
     (case value_format_of item of
        Some fmt \<Rightarrow> fmt # date_formats_in_array rest
      | None \<Rightarrow> date_formats_in_array rest)"
| "date_formats_in_array (x # rest) = date_formats_in_array rest"

text \<open>
  One round of the loop of \<^verbatim>\<open>_identify_date_params\<close>: what it does with the entry
  \<open>(key, value)\<close> to the \<^verbatim>\<open>date_params\<close> collected so far.
\<close>

definition identify_step :: "(string \<times> string) list \<Rightarrow> string \<times> pyval \<Rightarrow> (string \<times> string) list" where
  "identify_step date_params kv =
     (let key = fst kv; val = snd kv; key_l = lower key
      in if key_l \<in> set noise_param_names then date_params
         else case val of
           PList items \<Rightarrow>
             (case date_formats_in_array items of
                [] \<Rightarrow> date_params
              | fmt # fmts \<Rightarrow>
                  if name_matches_date key
                     \<or> contains_any key_l [''date'', ''time'', ''se'', ''range'']
                  then dict_set date_params key fmt
                  else date_params)
         | _ \<Rightarrow>
             (let v = py_str val
              in case value_format_of v of
                   None \<Rightarrow> date_params
                 | Some value_format \<Rightarrow>
                     if name_matches_date key then dict_set date_params key value_format
                     else if length v \<ge> 8
                             \<and> contains_any key_l [''date'', ''time'', ''day'', ''start'', ''end'',
                                                   ''begin'', ''from'', ''to'']
                     then dict_set date_params key value_format
                     else date_params))"

definition identify_date_params :: "pydict \<Rightarrow> (string \<times> string) list" where
  "identify_date_params params = foldl identify_step [] params"

section \<open>The standard library\<close>

text \<open>
  The extractor calls \<^verbatim>\<open>urllib.parse\<close>, \<^verbatim>\<open>json\<close> and \<^verbatim>\<open>datetime.timestamp\<close>. They
  are not part of the repository, so they are a parameter \<open>L\<close> of every function that
  uses them, and every theorem below holds whatever they compute. A computation that
  may raise returns an \<open>option\<close>: \<open>None\<close> is a raised exception.
\<close>

record parsed_url =
  u_scheme :: string
  u_netloc :: string
  u_path :: string
  u_params :: string
  u_query :: string
  u_fragment :: string

record pylib =
  urlparse :: "string \<Rightarrow> parsed_url option"
    \<comment> \<open>\<^verbatim>\<open>urlparse(url)\<close>; \<open>None\<close> when it raises \<^verbatim>\<open>ValueError\<close>\<close>
  urlunparse :: "parsed_url \<Rightarrow> string"
  parse_qs :: "bool \<Rightarrow> string \<Rightarrow> (string \<times> string list) list"
    \<comment> \<open>\<^verbatim>\<open>parse_qs(qs, keep_blank_values=b)\<close>: each key with its values\<close>
  urlencode :: "pydict \<Rightarrow> string"
    \<comment> \<open>\<^verbatim>\<open>urlencode(params, doseq=True)\<close>\<close>
  json_loads :: "string \<Rightarrow> pyval option"
    \<comment> \<open>\<^verbatim>\<open>json.loads(text)\<close>; \<open>None\<close> when it raises\<close>
  timestamp :: "nat \<times> nat \<times> nat \<Rightarrow> int"
    \<comment> \<open>\<^verbatim>\<open>int(dt.timestamp())\<close> of local midnight of a date (year, month, day)\<close>

text \<open>\<^verbatim>\<open>{k: v[0] if len(v) == 1 else v for k, v in parse_qs(...).items()}\<close>.\<close>

definition flatten_qs :: "(string \<times> string list) list \<Rightarrow> pydict" where
  "flatten_qs qs =
     map (\<lambda>(k, v). (k, case v of [x] \<Rightarrow> PStr x | _ \<Rightarrow> PList (map PStr v))) qs"

text \<open>\<^verbatim>\<open>d.update(e)\<close>.\<close>

definition dict_update :: "(string \<times> 'v) list \<Rightarrow> (string \<times> 'v) list \<Rightarrow> (string \<times> 'v) list" where
  "dict_update d e = foldl (\<lambda>acc (k, v). dict_set acc k v) d e"

text \<open>A method of \<^verbatim>\<open>str\<close> called on a value: it raises unless the value is a string.\<close>

fun as_str :: "pyval \<Rightarrow> string option" where
  "as_str (PStr s) = Some s"
| "as_str v = None"

text \<open>A method of \<^verbatim>\<open>dict\<close> called on a value.\<close>

fun as_dict :: "pyval \<Rightarrow> pydict option" where
  "as_dict (PDict d) = Some d"
| "as_dict v = None"

text \<open>
  \<^verbatim>\<open>for x in v\<close>: the elements of a list, the characters of a string, the keys of a
  dict; anything else is not iterable.
\<close>

fun py_iter :: "pyval \<Rightarrow> pyval list option" where
  "py_iter (PList xs) = Some xs"
| "py_iter (PStr s) = Some (map (\<lambda>c. PStr [c]) s)"
| "py_iter (PDict d) = Some (map (\<lambda>kv. PStr (fst kv)) d)"
| "py_iter v = None"

text \<open>\<^verbatim>\<open>v[:n]\<close>: a list or a string can be sliced, nothing else can.\<close>

fun py_slice :: "nat \<Rightarrow> pyval \<Rightarrow> pyval option" where
  "py_slice n (PList xs) = Some (PList (take n xs))"
| "py_slice n (PStr s) = Some (PStr (take n s))"
| "py_slice n v = None"

text \<open>\<^verbatim>\<open>len(v)\<close>.\<close>

fun py_len :: "pyval \<Rightarrow> nat option" where
  "py_len (PList xs) = Some (length xs)"
| "py_len (PStr s) = Some (length s)"
| "py_len (PDict d) = Some (length d)"
| "py_len v = None"

section \<open>Candidates and their confidence\<close>

text \<open>
  The result of one replay, the dict \<^verbatim>\<open>verify_candidate\<close> returns (without the
  \<^verbatim>\<open>raw_response\<close> preview text).
\<close>

datatype verror =
    NoError                 \<comment> \<open>\<^verbatim>\<open>None\<close>\<close>
  | HttpStatus int          \<comment> \<open>the text \<^verbatim>\<open>HTTP <status>\<close>\<close>
  | Invalid vreason         \<comment> \<open>the message of \<^verbatim>\<open>_validate_response\<close>\<close>
  | Raised                  \<comment> \<open>\<^verbatim>\<open>str(e)\<close> of an exception of the HTTP client\<close>

record vresult =
  v_success :: bool
  v_data_count :: int
  v_error :: verror
  v_parsed_data :: "pyval option"

text \<open>
  The dataclass \<^verbatim>\<open>DateAPICandidate\<close>. Python's \<^verbatim>\<open>float\<close> is idealised as a real
  number: the scores are sums of at most a dozen multiples of 0.05.
\<close>

record candidate =
  c_url :: string
  c_method :: string
  c_params :: pydict
  c_date_params :: "(string \<times> string) list"
  c_response_preview :: string
  c_confidence :: real
  c_resource_type :: pyval
  c_is_verified :: bool
  c_verification_result :: "vresult option"

definition API_PATH_WORDS :: "string list" where
  "API_PATH_WORDS = [''query'', ''search'', ''list'', ''find'', ''get'', ''fetch'', ''load'',
                     ''data'', ''api'']"

definition API_PATH_SUFFIXES :: "string list" where
  "API_PATH_SUFFIXES = [''.do'', ''.json'', ''.action'']"

text \<open>
  \<^verbatim>\<open>re.search(pattern, path, re.I)\<close> for some pattern of \<^verbatim>\<open>API_PATH_PATTERNS\<close>: nine
  words that may occur anywhere, and three suffixes anchored by \<^verbatim>\<open>$\<close>, which also
  matches before a final line feed.
\<close>

definition api_path_match :: "string \<Rightarrow> bool" where
  "api_path_match path =
     (contains_any (lower path) API_PATH_WORDS
      \<or> list_ex (\<lambda>suf. endswith (lower path) suf \<or> endswith (lower path) (suf @ [CHR 0x0A]))
           API_PATH_SUFFIXES)"

definition bulletin_tokens :: "string list" where
  "bulletin_tokens = [''bulletin'', ''announcement'', ''disclosure'', ''querycompanybulletin'']"

definition common_api_params :: "string list" where
  "common_api_params = [''page'', ''pageSize'', ''limit'', ''offset'', ''type'', ''category'']"

text \<open>\<^verbatim>\<open>all(k in self._noise_param_names for k in keys_l)\<close> with \<^verbatim>\<open>keys_l\<close> not empty.\<close>

definition all_noise :: "(string \<times> string) list \<Rightarrow> bool" where
  "all_noise date_params =
     (date_params \<noteq> [] \<and> list_all (\<lambda>kv. lower (fst kv) \<in> set noise_param_names) date_params)"

text \<open>
  \<^verbatim>\<open>_calculate_confidence\<close>. It raises when \<^verbatim>\<open>urlparse\<close> does.
\<close>

definition calculate_confidence ::
  "pylib \<Rightarrow> string \<Rightarrow> string \<Rightarrow> pydict \<Rightarrow> (string \<times> string) list \<Rightarrow> real option" where
  "calculate_confidence L url method params date_params =
     (let date_count = length date_params;
          c1 = (if date_count = 2 then 0.4 else if date_count = 1 then 0.2
                else if date_count > 2 then 0.1 else 0);
          c2 = (if all_noise date_params then c1 - 0.5 else c1)
      in case urlparse L url of
           None \<Rightarrow> None
         | Some parsed \<Rightarrow>
             (let path = lower (u_path parsed);
                  c3 = (if api_path_match path then c2 + 0.1 else c2);
                  c4 = (if contains_any path bulletin_tokens then c3 + 0.2 else c3);
                  c5 = foldl (\<lambda>c p. if lower p \<in> set (map (\<lambda>kv. lower (fst kv)) params)
                                     then c + 0.05 else c) c4 common_api_params;
                  c6 = (if method = ''POST'' then c5 + 0.1 else c5)
              in Some (min c6 1.0)))"

text \<open>
  The parameters of a request: the query string, then for a \<^verbatim>\<open>POST\<close> with a body the
  JSON object of the body or, when the body is not JSON, its form fields.
\<close>

definition body_params :: "pylib \<Rightarrow> pydict \<Rightarrow> pyval \<Rightarrow> pydict" where
  "body_params L flat_params post_data =
     (case post_data of
        PStr text \<Rightarrow>
          (case json_loads L text of
             Some (PDict body) \<Rightarrow> dict_update flat_params body
           | Some other \<Rightarrow> flat_params
           | None \<Rightarrow> dict_update flat_params (flatten_qs (parse_qs L False text)))
      | _ \<Rightarrow> flat_params)"

definition request_params :: "pylib \<Rightarrow> parsed_url \<Rightarrow> string \<Rightarrow> pydict \<Rightarrow> pydict" where
  "request_params L parsed method req =
     (let flat_params = flatten_qs (parse_qs L False (u_query parsed));
          post_data = dict_get_default req ''postData'' (PStr [])
      in if py_truthy post_data \<and> method = ''POST''
         then body_params L flat_params post_data else flat_params)"

text \<open>
  \<^verbatim>\<open>_analyze_single_request(req)\<close>: \<open>None\<close> is an exception, \<open>Some None\<close> the return
  value \<^verbatim>\<open>None\<close>, \<open>Some (Some c)\<close> a candidate.
\<close>

definition analyze_single_request :: "pylib \<Rightarrow> pydict \<Rightarrow> candidate option option" where
  "analyze_single_request L req =
     (case as_str (dict_get_default req ''method'' (PStr ''GET'')) of
        None \<Rightarrow> None
      | Some m \<Rightarrow>
          (let method = upper m; url_v = dict_get_default req ''url'' (PStr [])
           in if \<not> py_truthy url_v then Some None
              else case as_str url_v of
                None \<Rightarrow> None
              | Some url \<Rightarrow>
                  (case urlparse L url of
                     None \<Rightarrow> None
                   | Some parsed \<Rightarrow>
                       (let flat_params = request_params L parsed method req;
                            date_params = identify_date_params flat_params
                        in if date_params = [] then Some None
                           else case calculate_confidence L url method flat_params date_params of
                             None \<Rightarrow> None
                           | Some confidence \<Rightarrow>
                               Some (Some \<lparr>c_url = url, c_method = method,
                                  c_params = flat_params, c_date_params = date_params,
                                  c_response_preview = [], c_confidence = confidence,
                                  c_resource_type =
                                    dict_get_default req ''resourceType'' (PStr ''unknown''),
                                  c_is_verified = False,
                                  c_verification_result = None\<rparr>)))))"

section \<open>Analysing captured requests\<close>

text \<open>\<^verbatim>\<open>s.split('/')[-1]\<close> and \<^verbatim>\<open>' '.join(xs)\<close>.\<close>

definition last_segment :: "string \<Rightarrow> string" where
  "last_segment s = rev (takeWhile (\<lambda>c. c \<noteq> CHR ''/'') (rev s))"

fun join_blank :: "string list \<Rightarrow> string" where
  "join_blank [] = []"
| "join_blank [x] = x"
| "join_blank (x # y # ys) = x @ '' '' @ join_blank (y # ys)"

text \<open>
  One call frame in the summary: the text of \<^verbatim>\<open>f.get('functionName', '')\<close>, an at
  sign, and \<^verbatim>\<open>f.get('url', '').split('/')[-1]\<close>. It raises when the frame is not a
  dict or its \<^verbatim>\<open>url\<close> is not a string.
\<close>

definition frame_text :: "pyval \<Rightarrow> string option" where
  "frame_text f =
     (case f of
        PDict d \<Rightarrow>
          (case as_str (dict_get_default d ''url'' (PStr [])) of
             None \<Rightarrow> None
           | Some u \<Rightarrow>
               Some (py_str (dict_get_default d ''functionName'' (PStr [])) @ ''@'' @ last_segment u))
      | _ \<Rightarrow> None)"

text \<open>The lower-cased summary of the first five frames of the initiator's call stack.\<close>

definition stack_info_of :: "pydict \<Rightarrow> string option" where
  "stack_info_of initiator =
     (case dict_get_default initiator ''stack'' (PDict []) of
        PDict stack_obj \<Rightarrow>
          (let frames = dict_get_default stack_obj ''callFrames'' (PList [])
           in if \<not> py_truthy frames then Some []
              else case frames of
                PList fs \<Rightarrow> map_option (\<lambda>ts. lower (join_blank ts)) (those (map frame_text (take 5 fs)))
              | _ \<Rightarrow> None)
      | _ \<Rightarrow> Some [])"

definition interaction_keywords :: "string list" where
  "interaction_keywords = [''click'', ''change'', ''submit'', ''search'', ''query'', ''onchange'',
     ''onclick'', ''handleclick'', ''handlechange'', ''datepicker'', ''laydate'', ''calendar'']"

definition noise_keywords :: "string list" where
  "noise_keywords = [''setinterval'', ''settimeout'', ''heartbeat'', ''ping'', ''beacon'',
     ''analytics'', ''tracker'', ''log'', ''monitor'']"

text \<open>\<^verbatim>\<open>_apply_initiator_bonus(candidate, req)\<close>: the candidate with its new confidence.\<close>

definition apply_initiator_bonus :: "candidate \<Rightarrow> pydict \<Rightarrow> candidate option" where
  "apply_initiator_bonus c req =
     (case dict_get req ''initiator'' of
        PDict initiator \<Rightarrow>
          if initiator = [] then Some c
          else (case stack_info_of initiator of
                  None \<Rightarrow> None
                | Some stack_info \<Rightarrow>
                    (let init_type = dict_get_default initiator ''type'' (PStr []);
                         b1 = (if contains_any stack_info interaction_keywords then 0.15 else 0);
                         b2 = (if contains_any stack_info noise_keywords then 0.2 else 0);
                         b3 = (if init_type \<in> {PStr ''preload'', PStr ''preflight'', PStr ''other''}
                               then 0.1 else 0)
                     in Some (c\<lparr>c_confidence := c_confidence c + b1 - b2 - b3\<rparr>)))
      | _ \<Rightarrow> Some c)"

text \<open>
  The first loop of \<^verbatim>\<open>analyze_requests\<close>, over \<^verbatim>\<open>api_requests\<close>: each candidate gets
  0.2 and the initiator adjustment after its confidence was computed.
\<close>

fun analyze_api_requests :: "pylib \<Rightarrow> pyval list \<Rightarrow> candidate list \<Rightarrow> candidate list option" where
  "analyze_api_requests L [] candidates = Some candidates"
| "analyze_api_requests L (r # rs) candidates =
     (case r of
        PDict req \<Rightarrow>
          (case analyze_single_request L req of
             None \<Rightarrow> None
           | Some None \<Rightarrow> analyze_api_requests L rs candidates
           | Some (Some c) \<Rightarrow>
               (case apply_initiator_bonus (c\<lparr>c_confidence := c_confidence c + 0.2\<rparr>) req of
                  None \<Rightarrow> None
                | Some c' \<Rightarrow> analyze_api_requests L rs (candidates @ [c'])))
      | _ \<Rightarrow> None)"

text \<open>
  \<^verbatim>\<open>resource_type and resource_type_lower not in ('xhr', 'fetch', 'script', 'document',
  '')\<close>; \<open>None\<close> when \<^verbatim>\<open>.lower()\<close> raises.
\<close>

definition skipped_resource_type :: "pyval \<Rightarrow> bool option" where
  "skipped_resource_type resource_type =
     (if \<not> py_truthy resource_type then Some False
      else case as_str resource_type of
        None \<Rightarrow> None
      | Some rt \<Rightarrow> Some (lower rt \<notin> {''xhr'', ''fetch'', ''script'', ''document'', []}))"

text \<open>
  The second loop, over \<^verbatim>\<open>all_requests\<close>; \<^verbatim>\<open>url in analyzed_urls\<close> raises on a value
  that cannot be hashed.
\<close>

fun analyze_all_requests ::
  "pylib \<Rightarrow> pyval list \<Rightarrow> string list \<Rightarrow> candidate list \<Rightarrow> candidate list option" where
  "analyze_all_requests L [] analyzed_urls candidates = Some candidates"
| "analyze_all_requests L (r # rs) analyzed_urls candidates =
     (case r of
        PDict req \<Rightarrow>
          (let url_v = dict_get_default req ''url'' (PStr [])
           in case url_v of
                PList xs \<Rightarrow> None
              | PDict d \<Rightarrow> None
              | _ \<Rightarrow>
                  if url_v \<in> set (map PStr analyzed_urls)
                  then analyze_all_requests L rs analyzed_urls candidates
                  else (case skipped_resource_type (dict_get_default req ''resourceType'' (PStr [])) of
                          None \<Rightarrow> None
                        | Some True \<Rightarrow> analyze_all_requests L rs analyzed_urls candidates
                        | Some False \<Rightarrow>
                            (case analyze_single_request L req of
                               None \<Rightarrow> None
                             | Some None \<Rightarrow> analyze_all_requests L rs analyzed_urls candidates
                             | Some (Some c) \<Rightarrow>
                                 (case apply_initiator_bonus c req of
                                    None \<Rightarrow> None
                                  | Some c' \<Rightarrow>
                                      analyze_all_requests L rs (analyzed_urls @ [c_url c'])
                                        (candidates @ [c'])))))
      | _ \<Rightarrow> None)"

text \<open>
  \<^verbatim>\<open>analyze_requests(network_requests)\<close>: the candidates, sorted by descending
  confidence (\<^verbatim>\<open>list.sort\<close> is stable, also with \<^verbatim>\<open>reverse=True\<close>). It is the value
  assigned to \<^verbatim>\<open>self.candidates\<close> as well.
\<close>

definition analyze_requests :: "pylib \<Rightarrow> pydict \<Rightarrow> candidate list option" where
  "analyze_requests L network_requests =
     (case py_iter (dict_get_default network_requests ''api_requests'' (PList [])) of
        None \<Rightarrow> None
      | Some api_requests \<Rightarrow>
          (case analyze_api_requests L api_requests [] of
             None \<Rightarrow> None
           | Some cs1 \<Rightarrow>
               (case py_iter (dict_get_default network_requests ''all_requests'' (PList [])) of
                  None \<Rightarrow> None
                | Some all_requests \<Rightarrow>
                    (case analyze_all_requests L all_requests (map c_url cs1) cs1 of
                       None \<Rightarrow> None
                     | Some cs2 \<Rightarrow> Some (sort_key (\<lambda>c. - c_confidence c) cs2)))))"

section \<open>Dates\<close>

text \<open>
  \<^verbatim>\<open>datetime.strptime(date_str, '%Y-%m-%d')\<close> on ASCII text: four digits, a month
  written \<^verbatim>\<open>1[0-2]|0[1-9]|[1-9]\<close>, a day written \<^verbatim>\<open>3[01]|[12]\d|0[1-9]|[1-9]| [1-9]\<close>,
  nothing after it, and a date that exists. \<open>None\<close> is \<^verbatim>\<open>ValueError\<close>.
\<close>

definition digit_val :: "char \<Rightarrow> nat" where
  "digit_val c =
     (case map_of (zip ''0123456789'' [0, 1, 2, 3, 4, 5, 6, 7, 8, 9]) c of
        Some n \<Rightarrow> n | None \<Rightarrow> 0)"

definition num_of :: "string \<Rightarrow> nat" where
  "num_of s = foldl (\<lambda>n c. 10 * n + digit_val c) 0 s"

fun month_field :: "string \<Rightarrow> nat option" where
  "month_field [a] = (if a \<in> set ''123456789'' then Some (digit_val a) else None)"
| "month_field [a, b] =
     (if a = CHR ''1'' \<and> b \<in> set ''012'' then Some (10 + digit_val b)
      else if a = CHR ''0'' \<and> b \<in> set ''123456789'' then Some (digit_val b)
      else None)"
| "month_field s = None"

fun day_field :: "string \<Rightarrow> nat option" where
  "day_field [a] = (if a \<in> set ''123456789'' then Some (digit_val a) else None)"
| "day_field [a, b] =
     (if a = CHR ''3'' \<and> b \<in> set ''01'' then Some (30 + digit_val b)
      else if a \<in> set ''12'' \<and> is_digit b then Some (10 * digit_val a + digit_val b)
      else if (a = CHR ''0'' \<or> a = CHR '' '') \<and> b \<in> set ''123456789'' then Some (digit_val b)
      else None)"
| "day_field s = None"

definition days_in_month :: "nat \<Rightarrow> nat \<Rightarrow> nat" where
  "days_in_month y m =
     (if m = 2 then (if y mod 4 = 0 \<and> (y mod 100 \<noteq> 0 \<or> y mod 400 = 0) then 29 else 28)
      else if m \<in> {4, 6, 9, 11} then 30 else 31)"

definition strptime_ymd :: "string \<Rightarrow> (nat \<times> nat \<times> nat) option" where
  "strptime_ymd s =
     (let y = take 4 s; rest = drop 4 s
      in if length y = 4 \<and> list_all is_digit y \<and> take 1 rest = ''-''
         then (let r1 = drop 1 rest;
                   m = takeWhile (\<lambda>c. c \<noteq> CHR ''-'') r1;
                   r2 = dropWhile (\<lambda>c. c \<noteq> CHR ''-'') r1
               in if r2 = [] then None
                  else case (month_field m, day_field (drop 1 r2)) of
                    (Some mm, Some dd) \<Rightarrow>
                      if 1 \<le> num_of y \<and> dd \<le> days_in_month (num_of y) mm
                      then Some (num_of y, mm, dd) else None
                  | _ \<Rightarrow> None)
         else None)"

text \<open>
  \<^verbatim>\<open>strftime\<close> fields: \<^verbatim>\<open>%m\<close> and \<^verbatim>\<open>%d\<close> on two digits, \<^verbatim>\<open>%Y\<close> on four (a year
  below 1000 is padded with zeros, as most platforms do).
\<close>

definition pad :: "nat \<Rightarrow> nat \<Rightarrow> string" where
  "pad w n = replicate (w - length (dec_nat n)) CHR ''0'' @ dec_nat n"

definition format_date :: "pylib \<Rightarrow> string \<Rightarrow> string \<Rightarrow> string" where
  "format_date L date_str target_format =
     (case strptime_ymd date_str of
        None \<Rightarrow> date_str
      | Some (y, m, d) \<Rightarrow>
          if target_format = ''YYYY-MM-DD'' then pad 4 y @ ''-'' @ pad 2 m @ ''-'' @ pad 2 d
          else if target_format = ''YYYYMMDD'' then pad 4 y @ pad 2 m @ pad 2 d
          else if target_format = ''YYYY/MM/DD'' then pad 4 y @ ''/'' @ pad 2 m @ ''/'' @ pad 2 d
          else if target_format = ''timestamp_s'' then str_int (timestamp L (y, m, d))
          else if target_format = ''timestamp_ms'' then str_int (timestamp L (y, m, d) * 1000)
          else if target_format = ''YYYY-MM-DD HH:MM:SS''
          then pad 4 y @ ''-'' @ pad 2 m @ ''-'' @ pad 2 d @ '' 00:00:00''
          else date_str)"

section \<open>Replay\<close>

text \<open>\<^verbatim>\<open>k in d\<close>.\<close>

definition has_key :: "(string \<times> 'v) list \<Rightarrow> string \<Rightarrow> bool" where
  "has_key d k = (map_of d k \<noteq> None)"

fun is_list :: "pyval \<Rightarrow> bool" where
  "is_list (PList xs) = True"
| "is_list v = False"

text \<open>
  The substitution loop of \<^verbatim>\<open>build_replay_url\<close>. For the date parameter
  \<open>param_name\<close> with its recorded format, the new value is the array of both dates
  when the original value is a list or the name is a range name; otherwise it is one
  date, chosen by the name.
\<close>

definition replay_value ::
  "pylib \<Rightarrow> candidate \<Rightarrow> string \<Rightarrow> string \<Rightarrow> string \<times> string \<Rightarrow> pyval" where
  "replay_value L c start_date end_date pf =
     (let param_name = fst pf; date_format = snd pf;
          name_lower = lower param_name;
          original_value = dict_get (c_params c) param_name
      in if is_list original_value \<or> name_lower \<in> {''sedate'', ''daterange'', ''date_range''}
         then PList [PStr (format_date L start_date date_format),
                     PStr (format_date L end_date date_format)]
         else PStr (if contains_any name_lower [''start'', ''begin'', ''from'']
                    then format_date L start_date date_format
                    else if contains_any name_lower [''end'', ''to'']
                    then format_date L end_date date_format
                    else format_date L start_date date_format))"

definition replay_step ::
  "pylib \<Rightarrow> candidate \<Rightarrow> string \<Rightarrow> string \<Rightarrow> pydict \<Rightarrow> string \<times> string \<Rightarrow> pydict" where
  "replay_step L c start_date end_date new_params pf =
     dict_set new_params (fst pf) (replay_value L c start_date end_date pf)"

text \<open>The JSONP callback is renamed to a fixed token, and added for an SSE host.\<close>

definition fix_callbacks :: "pylib \<Rightarrow> candidate \<Rightarrow> pydict \<Rightarrow> pydict" where
  "fix_callbacks L c p0 =
     (let p1 = (if has_key p0 ''jsonCallBack'' then dict_set p0 ''jsonCallBack'' (PStr ''jsonCallback'')
                else p0);
          p2 = (if has_key p1 ''callback'' then dict_set p1 ''callback'' (PStr ''jsonCallback'')
                else p1)
      in case urlparse L (c_url c) of
           None \<Rightarrow> p2
         | Some parsed \<Rightarrow>
             if contains (lower (u_netloc parsed)) ''sse.com.cn''
                \<and> \<not> has_key p2 ''jsonCallBack'' \<and> \<not> has_key p2 ''callback''
             then dict_set p2 ''jsonCallBack'' (PStr ''jsonCallback'') else p2)"

definition page_defaults :: "pydict \<Rightarrow> pydict" where
  "page_defaults p0 =
     (let p1 = (if \<not> has_key p0 ''pageHelp.pageNo'' \<and> \<not> has_key p0 ''pageNo''
                then dict_set p0 ''pageHelp.pageNo'' (PStr ''1'') else p0)
      in if \<not> has_key p1 ''pageHelp.pageSize'' \<and> \<not> has_key p1 ''pageSize''
         then dict_set p1 ''pageHelp.pageSize'' (PStr ''25'') else p1)"

text \<open>The dict \<^verbatim>\<open>new_params\<close> when \<^verbatim>\<open>build_replay_url\<close> reaches its last statement.\<close>

definition replay_params :: "pylib \<Rightarrow> candidate \<Rightarrow> string \<Rightarrow> string \<Rightarrow> pydict" where
  "replay_params L c start_date end_date =
     page_defaults (fix_callbacks L c
       (foldl (replay_step L c start_date end_date) (c_params c) (c_date_params c)))"

text \<open>
  \<^verbatim>\<open>build_replay_url\<close> returns the pair \<^verbatim>\<open>(url, body)\<close>: for \<^verbatim>\<open>GET\<close> the parameters are
  encoded into the URL and the body is empty; otherwise the URL is unchanged and the
  body is \<^verbatim>\<open>new_params\<close>. The last \<^verbatim>\<open>urlparse\<close> is outside any \<^verbatim>\<open>try\<close>.
\<close>

definition build_replay_url ::
  "pylib \<Rightarrow> candidate \<Rightarrow> string \<Rightarrow> string \<Rightarrow> (string \<times> pydict) option" where
  "build_replay_url L c start_date end_date =
     (let new_params = replay_params L c start_date end_date
      in case urlparse L (c_url c) of
           None \<Rightarrow> None
         | Some parsed \<Rightarrow>
             if c_method c = ''GET''
             then Some (urlunparse L (parsed\<lparr>u_query := urlencode L new_params\<rparr>), [])
             else Some (c_url c, new_params))"

section \<open>Verification\<close>

text \<open>
  The HTTP client is a collaborator. A request is answered by an exception, or by a
  status and a body; the body is given as the value \<^verbatim>\<open>_parse_response\<close> makes of its
  text (\<open>PNone\<close> when the text is not JSON).
\<close>

record http_request =
  hr_method :: string
  hr_url :: string
  hr_body :: pydict

datatype http_outcome = HttpRaises | HttpResponse int pyval

text \<open>Comparison of strings, by code point.\<close>

fun str_less :: "string \<Rightarrow> string \<Rightarrow> bool" where
  "str_less [] [] = False"
| "str_less [] (y # ys) = True"
| "str_less (x # xs) [] = False"
| "str_less (x # xs) (y # ys) =
     ((of_char x :: nat) < of_char y \<or> (x = y \<and> str_less xs ys))"

text \<open>
  \<^verbatim>\<open>verify_candidate\<close>, with the text of today's date and the answer of the HTTP
  client as parameters. \<^verbatim>\<open>build_replay_url\<close> and the \<^verbatim>\<open>urlparse\<close> for the headers
  are called before the \<^verbatim>\<open>try\<close>, so their exception leaves the function.
\<close>

definition verify_candidate ::
  "pylib \<Rightarrow> string \<Rightarrow> (http_request \<Rightarrow> http_outcome) \<Rightarrow> candidate \<Rightarrow> string \<Rightarrow> string
     \<Rightarrow> vresult option" where
  "verify_candidate L today_str respond c start_date end_date =
     (let effective_end = (if str_less today_str end_date then today_str else end_date);
          effective_start = (if str_less effective_end start_date then effective_end else start_date)
      in case build_replay_url L c effective_start effective_end of
           None \<Rightarrow> None
         | Some (new_url, post_body) \<Rightarrow>
             (case urlparse L (c_url c) of
                None \<Rightarrow> None
              | Some parsed \<Rightarrow>
                  (case respond \<lparr>hr_method = (if c_method c = ''GET'' then ''GET'' else ''POST''),
                                 hr_url = new_url, hr_body = post_body\<rparr> of
                     HttpRaises \<Rightarrow>
                       Some \<lparr>v_success = False, v_data_count = 0, v_error = Raised,
                             v_parsed_data = None\<rparr>
                   | HttpResponse status_code data \<Rightarrow>
                       if status_code \<noteq> 200
                       then Some \<lparr>v_success = False, v_data_count = 0,
                                  v_error = HttpStatus status_code, v_parsed_data = None\<rparr>
                       else (case validate_response data of
                               (is_valid, data_count, err) \<Rightarrow>
                                 Some \<lparr>v_success = is_valid, v_data_count = data_count,
                                       v_error = (case err of None \<Rightarrow> NoError | Some r \<Rightarrow> Invalid r),
                                       v_parsed_data = (if is_valid then Some data else None)\<rparr>))))"

section \<open>Layer 1\<close>

definition dateish_tokens :: "string list" where
  "dateish_tokens = [''start'', ''begin'', ''from'', ''end'', ''to'', ''date'', ''time'', ''day'']"

text \<open>
  \<^verbatim>\<open>_looks_like_real_date_filter(candidate)\<close>, the sanity filter: its verdict (the
  reason text is not kept).
\<close>

definition looks_like_real_date_filter :: "candidate \<Rightarrow> bool" where
  "looks_like_real_date_filter c =
     (let url_l = lower (c_url c);
          keys = map fst (c_date_params c);
          non_noise_keys = filter (\<lambda>k. lower k \<notin> set noise_param_names) keys;
          has_dateish_name = list_ex (\<lambda>k. lower k \<notin> set noise_param_names
                                           \<and> contains_any (lower k) dateish_tokens) non_noise_keys;
          looks_like_bulletin_api = contains_any url_l bulletin_tokens
      in if keys = [] then False
         else if non_noise_keys = [] then False
         else if contains url_l ''commonquery'' \<and> \<not> looks_like_bulletin_api \<and> \<not> has_dateish_name
         then False
         else if looks_like_bulletin_api then True
         else if \<not> has_dateish_name then False
         else True)"

text \<open>
  The result dict of a layer: \<^verbatim>\<open>success\<close>, \<^verbatim>\<open>error\<close> (a string or \<^verbatim>\<open>None\<close>),
  \<^verbatim>\<open>data_count\<close>, and on success \<^verbatim>\<open>best_candidate\<close> and \<^verbatim>\<open>replayed_data\<close>.
\<close>

record layer_result =
  lr_success :: bool
  lr_error :: pyval
  lr_data_count :: int
  lr_best_candidate :: "candidate option"
  lr_replayed_data :: "pyval option"

definition layer_failure :: "string \<Rightarrow> layer_result" where
  "layer_failure msg =
     \<lparr>lr_success = False, lr_error = PStr msg, lr_data_count = 0,
      lr_best_candidate = None, lr_replayed_data = None\<rparr>"

text \<open>
  The verification loop of \<^verbatim>\<open>_try_layer1_api_direct\<close> over \<^verbatim>\<open>candidates[:3]\<close>. There
  is no \<^verbatim>\<open>break\<close>: every candidate of the slice is replayed, marked as verified and
  given its result, and \<^verbatim>\<open>best_candidate\<close> changes whenever a later candidate succeeds
  with a strictly larger count and passes the sanity filter. The HTTP client may
  answer the \<open>i\<close>-th replay as it likes. The result is \<open>None\<close> when a replay raised
  before its \<^verbatim>\<open>try\<close>; the candidates are returned as the loop left them.
\<close>

fun layer1_loop ::
  "pylib \<Rightarrow> string \<Rightarrow> (nat \<Rightarrow> http_request \<Rightarrow> http_outcome) \<Rightarrow> string \<Rightarrow> string \<Rightarrow> nat
     \<Rightarrow> candidate list \<Rightarrow> candidate option \<times> int
     \<Rightarrow> (candidate option \<times> int) option \<times> candidate list" where
  "layer1_loop L today_str http start_date end_date i [] best = (Some best, [])"
| "layer1_loop L today_str http start_date end_date i (c # cs) best =
     (case verify_candidate L today_str (http i) c start_date end_date of
        None \<Rightarrow> (None, c # cs)
      | Some result \<Rightarrow>
          (let c' = c\<lparr>c_is_verified := True, c_verification_result := Some result\<rparr>;
               best' = (if v_success result \<and> v_data_count result > snd best
                           \<and> looks_like_real_date_filter c'
                        then (Some c', v_data_count result) else best)
           in case layer1_loop L today_str http start_date end_date (Suc i) cs best' of
                (out, cs') \<Rightarrow> (out, c' # cs')))"

text \<open>
  \<^verbatim>\<open>_try_layer1_api_direct\<close>: the result dict, and the new value of
  \<^verbatim>\<open>self.candidates\<close> (\<open>None\<close> when \<^verbatim>\<open>analyze_requests\<close> raised and left it unchanged).
\<close>

definition try_layer1_api_direct ::
  "pylib \<Rightarrow> string \<Rightarrow> (nat \<Rightarrow> http_request \<Rightarrow> http_outcome) \<Rightarrow> pydict \<Rightarrow> string \<Rightarrow> string
     \<Rightarrow> layer_result \<times> candidate list option" where
  "try_layer1_api_direct L today_str http network_requests start_date end_date =
     (case analyze_requests L network_requests of
        None \<Rightarrow> (layer_failure ''layer 1 raised an exception'', None)
      | Some candidates \<Rightarrow>
          if candidates = []
          then (layer_failure ''no date-related API found in the network requests'', Some [])
          else (case layer1_loop L today_str http start_date end_date 0 (take 3 candidates) (None, 0) of
                  (out, verified) \<Rightarrow>
                    (let candidates' = verified @ drop 3 candidates
                     in case out of
                          None \<Rightarrow> (layer_failure ''layer 1 raised an exception'', Some candidates')
                        | Some (None, n) \<Rightarrow>
                            (layer_failure ''all candidates failed verification or look like false positives'',
                             Some candidates')
                        | Some (Some best_candidate, best_data_count) \<Rightarrow>
                            (\<lparr>lr_success = True, lr_error = PNone,
                              lr_data_count = best_data_count,
                              lr_best_candidate = Some best_candidate,
                              lr_replayed_data =
                                (case c_verification_result best_candidate of
                                   None \<Rightarrow> None | Some r \<Rightarrow> v_parsed_data r)\<rparr>,
                             Some candidates'))))"

section \<open>Layer 0\<close>

text \<open>
  The browser is a collaborator. Of the page the extractor reads the URL and the value
  of \<^verbatim>\<open>page.evaluate(js_code)\<close> for the scanning script (\<open>None\<close> when the call
  raises); of the controller it reads \<^verbatim>\<open>page\<close> and, when the method exists,
  \<^verbatim>\<open>get_intercepted_apis()\<close> (\<open>Some None\<close> when the call raises). The table of known
  sites only changes the text of the script that is sent to the page, so it does not
  appear here.
\<close>

record page =
  pg_url :: string
  pg_evaluate :: "pyval option"

record browser =
  br_page :: "page option"
  br_intercepted :: "pyval option option"

text \<open>The dict returned when \<^verbatim>\<open>page.evaluate\<close> or the logging after it raises.\<close>

definition scan_error :: pyval where
  "scan_error = PDict [(''found'', PBool False), (''error'', PStr ''JavaScript execution failed'')]"

text \<open>
  The two log lines for one of the first three configurations evaluate
  \<^verbatim>\<open>cfg.get('api_url', '')[:60]\<close> and \<^verbatim>\<open>list(cfg.get('date_params', {}).keys())\<close>.
\<close>

definition cfg_log_ok :: "pyval \<Rightarrow> bool" where
  "cfg_log_ok cfg =
     (case cfg of
        PDict d \<Rightarrow>
          py_slice 60 (dict_get_default d ''api_url'' (PStr [])) \<noteq> None
          \<and> as_dict (dict_get_default d ''date_params'' (PDict [])) \<noteq> None
      | _ \<Rightarrow> False)"

definition scan_log_ok :: "pyval \<Rightarrow> bool" where
  "scan_log_ok result =
     (case result of
        PDict r \<Rightarrow>
          py_len (dict_get_default r ''scanned_vars'' (PList [])) \<noteq> None
          \<and> py_len (dict_get_default r ''api_configs'' (PList [])) \<noteq> None
          \<and> (case py_slice 3 (dict_get_default r ''api_configs'' (PList [])) of
                None \<Rightarrow> False
              | Some sl \<Rightarrow> (case py_iter sl of None \<Rightarrow> False | Some cfgs \<Rightarrow> list_all cfg_log_ok cfgs))
      | _ \<Rightarrow> False)"

text \<open>\<^verbatim>\<open>_execute_global_var_scan\<close>: the value of the script, or the error dict.\<close>

definition execute_global_var_scan :: "page \<Rightarrow> pyval" where
  "execute_global_var_scan pg =
     (case pg_evaluate pg of
        None \<Rightarrow> scan_error
      | Some result \<Rightarrow>
          if \<not> py_truthy result then result
          else if scan_log_ok result then result else scan_error)"

text \<open>\<^verbatim>\<open>s.split('?')[0]\<close>.\<close>

definition before_query :: "string \<Rightarrow> string" where
  "before_query s = takeWhile (\<lambda>c. c \<noteq> CHR ''?'') s"

definition static_extensions :: "string list" where
  "static_extensions = [''.css'', ''.png'', ''.jpg'', ''.gif'', ''.svg'', ''.ico'']"

text \<open>
  One record of \<^verbatim>\<open>_analyze_intercepted_apis\<close>: \<open>None\<close> is an exception, \<open>Some None\<close>
  a skipped record, \<open>Some (Some cfg)\<close> a configuration.
\<close>

definition intercepted_config :: "pylib \<Rightarrow> pyval \<Rightarrow> pyval option option" where
  "intercepted_config L record =
     (case record of
        PDict r \<Rightarrow>
          (let url_v = dict_get_default r ''url'' (PStr [])
           in if \<not> py_truthy url_v then Some None
              else case as_str url_v of
                None \<Rightarrow> None
              | Some url0 \<Rightarrow>
                  (let url_lower = lower url0
                   in if list_ex (endswith url_lower) static_extensions then Some None
                      else if \<not> startswith url0 ''//'' \<and> startswith url0 ''/'' then Some None
                      else (let url = (if startswith url0 ''//'' then ''https:'' @ url0 else url0)
                            in if \<not> startswith url ''http'' then Some None
                               else case urlparse L url of
                                 None \<Rightarrow> None
                               | Some parsed \<Rightarrow>
                                   (let flat_params = flatten_qs (parse_qs L False (u_query parsed));
                                        date_params = identify_date_params flat_params
                                    in if date_params = [] then Some None
                                       else case py_slice 500 (dict_get_default r ''stack'' (PStr [])) of
                                         None \<Rightarrow> None
                                       | Some call_stack \<Rightarrow>
                                           Some (Some (PDict
                                             [(''var_name'', PStr (''intercepted_'' @
                                                 py_str (dict_get_default r ''type'' (PStr ''unknown'')))),
                                              (''api_url'', PStr (before_query url)),
                                              (''date_params'',
                                                 PDict (map (\<lambda>kv. (fst kv, PStr (snd kv))) date_params)),
                                              (''all_params'', PDict flat_params),
                                              (''is_jsonp'', PBool (contains url_lower ''callback''
                                                                     \<or> contains url_lower ''jsonp'')),
                                              (''date_format'', PStr (snd (hd date_params))),
                                              (''extra_info'', PDict
                                                 [(''source'', PStr ''xhr_fetch_hook''),
                                                  (''call_stack'', call_stack),
                                                  (''http_method'',
                                                     dict_get_default r ''method'' (PStr ''GET''))])]))))))
      | _ \<Rightarrow> None)"

fun intercepted_configs :: "pylib \<Rightarrow> pyval list \<Rightarrow> pyval list option" where
  "intercepted_configs L [] = Some []"
| "intercepted_configs L (r # rs) =
     (case intercepted_config L r of
        None \<Rightarrow> None
      | Some None \<Rightarrow> intercepted_configs L rs
      | Some (Some cfg) \<Rightarrow> map_option ((#) cfg) (intercepted_configs L rs))"

text \<open>
  \<^verbatim>\<open>_analyze_intercepted_apis(intercepted, log)\<close>: the return value (\<open>PNone\<close> for
  \<^verbatim>\<open>None\<close>), or \<open>None\<close> for an exception.
\<close>

definition analyze_intercepted_apis :: "pylib \<Rightarrow> pyval \<Rightarrow> pyval option" where
  "analyze_intercepted_apis L intercepted =
     (if \<not> py_truthy intercepted then Some PNone
      else case py_iter intercepted of
        None \<Rightarrow> None
      | Some records \<Rightarrow>
          (case intercepted_configs L records of
             None \<Rightarrow> None
           | Some api_configs \<Rightarrow>
               if api_configs = []
               then Some (PDict [(''found'', PBool False),
                                 (''error'', PStr ''no API with date parameters in the hook records'')])
               else Some (PDict [(''found'', PBool True),
                                 (''api_configs'', PList api_configs),
                                 (''scanned_vars'',
                                    PList (map (\<lambda>i. PStr (''hook_'' @ dec_nat i)) [0..<length api_configs]))])))"

text \<open>\<^verbatim>\<open>not scan_result or not scan_result.get('found')\<close>; it raises on a truthy non-dict.\<close>

definition not_found :: "pyval \<Rightarrow> bool option" where
  "not_found scan_result =
     (if \<not> py_truthy scan_result then Some True
      else case scan_result of
        PDict d \<Rightarrow> Some (\<not> py_truthy (dict_get d ''found''))
      | _ \<Rightarrow> None)"

text \<open>
  The selection loop over \<^verbatim>\<open>api_configs\<close>: the first configuration with two or more
  date parameters, else the first one with any.
\<close>

fun choose_config :: "pyval list \<Rightarrow> pyval option \<Rightarrow> pyval option option" where
  "choose_config [] best_config = Some best_config"
| "choose_config (config # rest) best_config =
     (case config of
        PDict d \<Rightarrow>
          (let date_params = dict_get_default d ''date_params'' (PDict [])
           in if \<not> py_truthy date_params then choose_config rest best_config
              else case py_len date_params of
                None \<Rightarrow> None
              | Some n \<Rightarrow>
                  if n \<ge> 2 then Some (Some config)
                  else if best_config = None then choose_config rest (Some config)
                  else choose_config rest best_config)
      | _ \<Rightarrow> None)"

definition layer0_failure :: "pyval \<Rightarrow> pydict" where
  "layer0_failure err = [(''success'', PBool False), (''error'', err)]"

definition layer0_success :: "pydict \<Rightarrow> pyval \<Rightarrow> pydict" where
  "layer0_success best_config api_configs =
     [(''success'', PBool True),
      (''var_name'', dict_get_default best_config ''var_name'' (PStr [])),
      (''api_url'', dict_get_default best_config ''api_url'' (PStr [])),
      (''date_params'', dict_get_default best_config ''date_params'' (PDict [])),
      (''all_params'', dict_get_default best_config ''all_params'' (PDict [])),
      (''date_format'', dict_get_default best_config ''date_format'' (PStr ''YYYY-MM-DD'')),
      (''is_jsonp'', dict_get_default best_config ''is_jsonp'' (PBool False)),
      (''extra_info'', dict_get_default best_config ''extra_info'' (PDict [])),
      (''all_configs'', api_configs)]"

text \<open>
  The scan result after the hook records were consulted (\<open>None\<close> for an exception).
\<close>

definition scan_with_hooks :: "pylib \<Rightarrow> browser \<Rightarrow> page \<Rightarrow> pyval option" where
  "scan_with_hooks L b pg =
     (let scan_result = execute_global_var_scan pg
      in case not_found scan_result of
           None \<Rightarrow> None
         | Some False \<Rightarrow> Some scan_result
         | Some True \<Rightarrow>
             (case br_intercepted b of
                None \<Rightarrow> Some scan_result
              | Some None \<Rightarrow> None
              | Some (Some intercepted) \<Rightarrow>
                  if \<not> py_truthy intercepted then Some scan_result
                  else if py_len intercepted = None then None
                  else (case analyze_intercepted_apis L intercepted of
                          None \<Rightarrow> None
                        | Some hook_result \<Rightarrow>
                            if \<not> py_truthy hook_result then Some scan_result
                            else (case hook_result of
                                    PDict h \<Rightarrow>
                                      if py_truthy (dict_get h ''found'') then Some hook_result
                                      else Some scan_result
                                  | _ \<Rightarrow> None))))"

text \<open>
  The body of the \<^verbatim>\<open>try\<close> of \<^verbatim>\<open>_try_layer0_global_var_scan\<close> once the page is known.
  When nothing was found the error is \<^verbatim>\<open>scan_result.get('error', <text>)\<close>: the
  default text is used only when the key is absent.
\<close>

definition layer0_body :: "pylib \<Rightarrow> browser \<Rightarrow> page \<Rightarrow> pydict option" where
  "layer0_body L b pg =
     (case scan_with_hooks L b pg of
        None \<Rightarrow> None
      | Some scan_result \<Rightarrow>
          (case not_found scan_result of
             None \<Rightarrow> None
           | Some True \<Rightarrow>
               (case scan_result of
                  PDict d \<Rightarrow> Some (layer0_failure (dict_get_default d ''error''
                                 (PStr ''no global variable with an API configuration found'')))
                | _ \<Rightarrow> None)
           | Some False \<Rightarrow>
               (case scan_result of
                  PDict d \<Rightarrow>
                    (let api_configs = dict_get_default d ''api_configs'' (PList [])
                     in if \<not> py_truthy api_configs
                        then Some (layer0_failure (PStr ''globals scanned but no valid API configuration''))
                        else case api_configs of
                          PList configs \<Rightarrow>
                            (case choose_config configs None of
                               None \<Rightarrow> None
                             | Some chosen \<Rightarrow>
                                 (let best_config = (case chosen of Some c \<Rightarrow> c | None \<Rightarrow> hd configs)
                                  in if \<not> py_truthy best_config
                                     then Some (layer0_failure
                                            (PStr ''no API configuration with date parameters''))
                                     else case best_config of
                                       PDict bc \<Rightarrow> Some (layer0_success bc api_configs)
                                     | _ \<Rightarrow> None))
                        | _ \<Rightarrow> None)
                | _ \<Rightarrow> None)))"

text \<open>\<^verbatim>\<open>_try_layer0_global_var_scan\<close>: every exception becomes an error dict.\<close>

definition try_layer0_global_var_scan :: "pylib \<Rightarrow> browser option \<Rightarrow> pydict" where
  "try_layer0_global_var_scan L bo =
     (case bo of
        None \<Rightarrow> layer0_failure (PStr ''browser not ready'')
      | Some b \<Rightarrow>
          (case br_page b of
             None \<Rightarrow> layer0_failure (PStr ''browser not ready'')
           | Some pg \<Rightarrow>
               (case layer0_body L b pg of
                  None \<Rightarrow> layer0_failure (PStr ''global variable scan raised an exception'')
                | Some r \<Rightarrow> r)))"

section \<open>Candidates from a Layer 0 result\<close>

text \<open>The base URL: a relative path is joined to the page's origin, \<^verbatim>\<open>//host\<close> gets a scheme.\<close>

definition absolute_url :: "pylib \<Rightarrow> browser option \<Rightarrow> string \<Rightarrow> string" where
  "absolute_url L bo api_url =
     (let u1 = (if startswith api_url ''/'' \<and> \<not> startswith api_url ''//''
                then (case bo of
                        None \<Rightarrow> api_url
                      | Some b \<Rightarrow>
                          (case br_page b of
                             None \<Rightarrow> api_url
                           | Some pg \<Rightarrow>
                               if pg_url pg = [] then api_url
                               else (case urlparse L (pg_url pg) of
                                       None \<Rightarrow> api_url
                                     | Some parsed \<Rightarrow>
                                         u_scheme parsed @ ''://'' @ u_netloc parsed @ api_url)))
                else api_url)
      in if startswith u1 ''//'' then ''https:'' @ u1 else u1)"

text \<open>The parameters of the query string of the URL, with the JSONP placeholder renamed.\<close>

definition url_query_param :: "string \<times> string list \<Rightarrow> string \<times> pyval" where
  "url_query_param kv =
     (let k = fst kv; v_list = snd kv
      in if (k = ''jsonCallBack'' \<or> k = ''callback'') \<and> v_list \<noteq> [] \<and> hd v_list = ''?''
         then (k, PStr ''jsonCallback'')
         else (k, case v_list of [x] \<Rightarrow> PStr x | _ \<Rightarrow> PList (map PStr v_list)))"

definition config_skip_words :: "string list" where
  "config_skip_words = [''url'', ''template'', ''selector'', ''element'', ''container'', ''target'']"

text \<open>Whether an entry of the page's parameter object is kept as an API parameter.\<close>

definition keeps_obj_param :: "string \<times> pyval \<Rightarrow> bool" where
  "keeps_obj_param kv =
     (let k = fst kv; v = snd kv
      in \<not> (case v of
               PStr s \<Rightarrow> (startswith s ''http'' \<or> startswith s ''//'' \<or> startswith s ''/'')
                          \<and> contains (drop 2 s) ''/''
             | _ \<Rightarrow> False)
         \<and> \<not> contains_any (lower k) config_skip_words
         \<and> (case v of PDict d \<Rightarrow> False | _ \<Rightarrow> True))"

text \<open>\<^verbatim>\<open>if k not in d: d[k] = v\<close>.\<close>

definition dict_setdefault :: "(string \<times> 'v) list \<Rightarrow> string \<Rightarrow> 'v \<Rightarrow> (string \<times> 'v) list" where
  "dict_setdefault d k v = (if has_key d k then d else dict_set d k v)"

text \<open>
  \<^verbatim>\<open>_build_candidate_from_global_var(layer0_result)\<close>. The whole body is inside a
  \<^verbatim>\<open>try\<close> that returns \<^verbatim>\<open>None\<close>, so \<open>None\<close> here is the return value \<^verbatim>\<open>None\<close>. The
  date parameters of the candidate are the keys of \<^verbatim>\<open>date_params\<close> of the
  configuration, each with \<^verbatim>\<open>date_format\<close>; when there are none, \<^verbatim>\<open>seDate\<close> is added
  only for the source \<^verbatim>\<open>flag_obj\<close>. A \<^verbatim>\<open>date_format\<close> that is not a string is
  recorded by its text, which names no format either.
\<close>

definition build_candidate_from_global_var ::
  "pylib \<Rightarrow> browser option \<Rightarrow> pydict \<Rightarrow> candidate option" where
  "build_candidate_from_global_var L bo layer0_result =
     (let api_url_v = dict_get_default layer0_result ''api_url'' (PStr [])
      in if \<not> py_truthy api_url_v then None
         else case as_str api_url_v of
           None \<Rightarrow> None
         | Some api_url0 \<Rightarrow>
           (let api_url1 = absolute_url L bo api_url0
            in case (if contains api_url1 ''?''
                     then map_option
                            (\<lambda>parsed_url. (map url_query_param (parse_qs L True (u_query parsed_url)),
                                            urlunparse L (parsed_url\<lparr>u_query := []\<rparr>)))
                            (urlparse L api_url1)
                     else Some ([], api_url1)) of
                 None \<Rightarrow> None
               | Some (url_query_params, api_url) \<Rightarrow>
                 (case (as_dict (dict_get_default layer0_result ''all_params'' (PDict [])),
                        as_dict (dict_get_default layer0_result ''date_params'' (PDict [])),
                        as_str (dict_get_default layer0_result ''var_name'' (PStr [])),
                        urlparse L api_url) of
                    (Some raw_obj_params, Some date_params, Some var_name0, Some parsed) \<Rightarrow>
                      (let date_format = py_str (dict_get_default layer0_result ''date_format''
                                                   (PStr ''YYYY-MM-DD''));
                           extra_info = dict_get_default layer0_result ''extra_info'' (PDict []);
                           obj_params = filter keeps_obj_param raw_obj_params;
                           p1 = foldl (\<lambda>acc kv. dict_setdefault acc (fst kv) (snd kv))
                                  url_query_params obj_params;
                           all_params = foldl (\<lambda>acc kv. dict_setdefault acc (fst kv) (PStr []))
                                          p1 date_params;
                           var_name = lower var_name0;
                           url_path = lower (u_path parsed);
                           is_jsonp = (py_truthy (dict_get_default layer0_result ''is_jsonp'' (PBool False))
                                       \<or> has_key all_params ''jsonCallBack''
                                       \<or> has_key all_params ''callback'');
                           method = (if is_jsonp then ''GET''
                                     else if contains_any var_name [''history'', ''search'', ''query'']
                                     then ''POST''
                                     else if contains_any url_path [''annlist'', ''search'']
                                     then ''POST'' else ''GET'');
                           date_param_formats = map (\<lambda>kv. (fst kv, date_format)) date_params
                       in if date_param_formats = []
                          then (case extra_info of
                                  PDict e \<Rightarrow>
                                    if dict_get e ''source'' = PStr ''flag_obj''
                                    then Some \<lparr>c_url = api_url, c_method = method,
                                           c_params = dict_set all_params ''seDate'' (PList []),
                                           c_date_params = [(''seDate'', date_format)],
                                           c_response_preview = [], c_confidence = 0.95,
                                           c_resource_type = PStr ''global_var'',
                                           c_is_verified = False, c_verification_result = None\<rparr>
                                    else Some \<lparr>c_url = api_url, c_method = method,
                                           c_params = all_params, c_date_params = [],
                                           c_response_preview = [], c_confidence = 0.95,
                                           c_resource_type = PStr ''global_var'',
                                           c_is_verified = False, c_verification_result = None\<rparr>
                                | _ \<Rightarrow> None)
                          else Some \<lparr>c_url = api_url, c_method = method,
                                 c_params = all_params, c_date_params = date_param_formats,
                                 c_response_preview = [], c_confidence = 0.95,
                                 c_resource_type = PStr ''global_var'',
                                 c_is_verified = False, c_verification_result = None\<rparr>)
                  | _ \<Rightarrow> None)))"

section \<open>The orchestrator\<close>

text \<open>
  The fields of \<^verbatim>\<open>self\<close> that \<^verbatim>\<open>extract_with_three_layers\<close> reads and writes, and the
  state \<^verbatim>\<open>__init__\<close> gives them. A \<^verbatim>\<open>GlobalVarAPIConfig\<close> copies seven entries of
  the Layer 0 result; it is kept as that result.
\<close>

record extractor =
  x_candidates :: "candidate list"
  x_layer0_result :: "pydict option"
  x_layer1_result :: "layer_result option"
  x_layer2_result :: "layer_result option"
  x_layer3_result :: "layer_result option"
  x_global_var_config :: "pydict option"

definition init_extractor :: extractor where
  "init_extractor =
     \<lparr>x_candidates = [], x_layer0_result = None, x_layer1_result = None,
      x_layer2_result = None, x_layer3_result = None, x_global_var_config = None\<rparr>"

text \<open>The dataclass \<^verbatim>\<open>DateAPIExtractionResult\<close>.\<close>

record extraction_result =
  er_success :: bool
  er_layer :: int
  er_candidates :: "candidate list"
  er_best_candidate :: "candidate option"
  er_error :: "string option"
  er_replayed_data :: "pyval option"
  er_data_count :: int
  er_layer0_result :: "pydict option"
  er_layer1_result :: "layer_result option"
  er_layer2_result :: "layer_result option"
  er_layer3_result :: "layer_result option"
  er_global_var_config :: "pydict option"
  er_recommendations :: "string list"

text \<open>
  Everything outside the extractor. Layers 2 and 3 drive the browser and the LLM over
  some fourteen hundred lines; each is one \<^verbatim>\<open>try\<close> whose every branch returns a result
  dict, so a run of such a layer is given by the dict it returns and, when it analysed
  new traffic, the list it assigned to \<^verbatim>\<open>self.candidates\<close>.
\<close>

record world =
  w_browser :: "browser option"
  w_llm :: bool
  w_today :: string
  w_http0 :: "http_request \<Rightarrow> http_outcome"
  w_http1 :: "nat \<Rightarrow> http_request \<Rightarrow> http_outcome"
  w_layer2 :: "layer_result \<times> candidate list option"
  w_layer3 :: "layer_result \<times> candidate list option"

datatype layer_event = RanLayer0 | RanLayer1 | RanLayer2 | RanLayer3

datatype 'a step = Return 'a | Raise | Continue

text \<open>The keys of a dict in a message, schematically.\<close>

definition show_keys :: "string list \<Rightarrow> string" where
  "show_keys ks = ''['' @ concat (map (\<lambda>k. k @ '' '') ks) @ '']''"

definition set_candidates :: "candidate list option \<Rightarrow> extractor \<Rightarrow> extractor" where
  "set_candidates cs x = (case cs of None \<Rightarrow> x | Some l \<Rightarrow> x\<lparr>x_candidates := l\<rparr>)"

text \<open>The result of a layer that succeeded, for layers 1 to 3.\<close>

definition layer_success_result ::
  "int \<Rightarrow> extractor \<Rightarrow> layer_result \<Rightarrow> string list \<Rightarrow> extraction_result" where
  "layer_success_result n x r recs =
     \<lparr>er_success = True, er_layer = n, er_candidates = x_candidates x,
      er_best_candidate = lr_best_candidate r, er_error = None,
      er_replayed_data = lr_replayed_data r, er_data_count = lr_data_count r,
      er_layer0_result = x_layer0_result x,
      er_layer1_result = (if n = 1 then Some r else x_layer1_result x),
      er_layer2_result = (if n = 2 then Some r else if n = 3 then x_layer2_result x else None),
      er_layer3_result = (if n = 3 then Some r else None),
      er_global_var_config = None, er_recommendations = recs\<rparr>"

text \<open>
  The Layer 0 block. Nothing in it is inside a \<^verbatim>\<open>try\<close> of the orchestrator: the two
  log lines after a successful scan slice \<^verbatim>\<open>api_url\<close> and list the keys of
  \<^verbatim>\<open>date_params\<close>, and \<^verbatim>\<open>verify_candidate\<close> may raise before its own \<^verbatim>\<open>try\<close>.
\<close>

definition layer0_block ::
  "pylib \<Rightarrow> world \<Rightarrow> extractor \<Rightarrow> string \<Rightarrow> string
     \<Rightarrow> extraction_result step \<times> extractor \<times> layer_event list" where
  "layer0_block L W x start_date end_date =
     (case w_browser W of
        None \<Rightarrow> (Continue, x, [])
      | Some b \<Rightarrow>
          (case br_page b of
             None \<Rightarrow> (Continue, x, [])
           | Some pg \<Rightarrow>
               (let layer0_result = try_layer0_global_var_scan L (w_browser W);
                    x1 = x\<lparr>x_layer0_result := Some layer0_result\<rparr>
                in if \<not> py_truthy (dict_get layer0_result ''success'')
                   then (Continue, x1, [RanLayer0])
                   else if py_slice 80 (dict_get_default layer0_result ''api_url'' (PStr [])) = None
                           \<or> as_dict (dict_get_default layer0_result ''date_params'' (PDict [])) = None
                   then (Raise, x1, [RanLayer0])
                   else case build_candidate_from_global_var L (w_browser W) layer0_result of
                     None \<Rightarrow> (Continue, x1, [RanLayer0])
                   | Some candidate \<Rightarrow>
                       (case verify_candidate L (w_today W) (w_http0 W) candidate start_date end_date of
                          None \<Rightarrow> (Raise, x1, [RanLayer0])
                        | Some verify_result \<Rightarrow>
                            if \<not> v_success verify_result then (Continue, x1, [RanLayer0])
                            else (let x2 = x1\<lparr>x_candidates := candidate # x_candidates x1,
                                               x_global_var_config := Some layer0_result\<rparr>
                                  in (Return
                                        \<lparr>er_success = True, er_layer = 0,
                                         er_candidates = x_candidates x2,
                                         er_best_candidate = Some candidate, er_error = None,
                                         er_replayed_data = v_parsed_data verify_result,
                                         er_data_count = v_data_count verify_result,
                                         er_layer0_result = Some layer0_result,
                                         er_layer1_result = None, er_layer2_result = None,
                                         er_layer3_result = None,
                                         er_global_var_config = Some layer0_result,
                                         er_recommendations =
                                           [''API configuration read from a global variable'',
                                            ''date parameters: '' @ show_keys (map fst
                                               (case dict_get_default layer0_result ''date_params'' (PDict []) of
                                                  PDict d \<Rightarrow> d | _ \<Rightarrow> [])),
                                            ''most precise method, no capture or DOM operation needed'']\<rparr>,
                                      x2, [RanLayer0]))))))"

text \<open>
  \<^verbatim>\<open>"<text>" + (self._layerN_result or {}).get('error', '')\<close>: the concatenation is
  a \<^verbatim>\<open>TypeError\<close> unless the error is a string. The default applies only when the key
  is absent, not when its value is \<^verbatim>\<open>None\<close>.
\<close>

definition concat_error :: "string \<Rightarrow> pyval \<Rightarrow> string option" where
  "concat_error txt err = (case err of PStr s \<Rightarrow> Some (txt @ s) | _ \<Rightarrow> None)"

definition layer0_error :: "extractor \<Rightarrow> pyval" where
  "layer0_error x =
     (case x_layer0_result x of None \<Rightarrow> PStr [] | Some d \<Rightarrow> dict_get_default d ''error'' (PStr []))"

definition layer_error :: "layer_result option \<Rightarrow> pyval" where
  "layer_error r = (case r of None \<Rightarrow> PStr [] | Some l \<Rightarrow> lr_error l)"

text \<open>The last statement: the result when every layer has failed.\<close>

definition all_failed :: "extractor \<Rightarrow> extraction_result option" where
  "all_failed x =
     (case (concat_error ''global variable scan failed: '' (layer0_error x),
            concat_error ''direct API replay failed: '' (layer_error (x_layer1_result x)),
            concat_error ''DOM detection failed: '' (layer_error (x_layer2_result x)),
            concat_error ''LLM vision analysis failed: '' (layer_error (x_layer3_result x))) of
        (Some r0, Some r1, Some r2, Some r3) \<Rightarrow>
          Some \<lparr>er_success = False, er_layer = - 1, er_candidates = x_candidates x,
                er_best_candidate = None, er_error = Some ''all four layers failed'',
                er_replayed_data = None, er_data_count = 0,
                er_layer0_result = x_layer0_result x, er_layer1_result = x_layer1_result x,
                er_layer2_result = x_layer2_result x, er_layer3_result = x_layer3_result x,
                er_global_var_config = None,
                er_recommendations =
                  [r0, r1, r2, r3, ''check for anti-scraping measures or analyse the date control by hand'']\<rparr>
      | _ \<Rightarrow> None)"

text \<open>Layer 3 and the end, reached when Layer 2 did not succeed.\<close>

definition layer3_block ::
  "world \<Rightarrow> extractor \<Rightarrow> layer_event list \<Rightarrow> extraction_result option \<times> extractor \<times> layer_event list" where
  "layer3_block W x ev =
     (if w_browser W = None \<or> \<not> w_llm W then (all_failed x, x, ev)
      else (let layer3_result = fst (w_layer3 W);
                x3 = (set_candidates (snd (w_layer3 W)) x)\<lparr>x_layer3_result := Some layer3_result\<rparr>
            in if lr_success layer3_result
               then (Some (layer_success_result 3 x3 layer3_result
                       [''the LLM vision analysis located the date control'']),
                     x3, ev @ [RanLayer3])
               else (all_failed x3, x3, ev @ [RanLayer3])))"

text \<open>Layer 2, reached when Layer 1 did not succeed.\<close>

definition layer2_block ::
  "world \<Rightarrow> extractor \<Rightarrow> layer_event list \<Rightarrow> extraction_result option \<times> extractor \<times> layer_event list" where
  "layer2_block W x ev =
     (if w_browser W = None then layer3_block W x ev
      else (let layer2_result = fst (w_layer2 W);
                x2 = (set_candidates (snd (w_layer2 W)) x)\<lparr>x_layer2_result := Some layer2_result\<rparr>
            in if lr_success layer2_result
               then (Some (layer_success_result 2 x2 layer2_result
                       [''DOM automation captured the date API'']),
                     x2, ev @ [RanLayer2])
               else layer3_block W x2 (ev @ [RanLayer2])))"

text \<open>Layer 1 and what follows it, reached when Layer 0 neither returned nor raised.\<close>

definition layer1_block ::
  "pylib \<Rightarrow> world \<Rightarrow> extractor \<Rightarrow> layer_event list \<Rightarrow> pydict \<Rightarrow> string \<Rightarrow> string
     \<Rightarrow> extraction_result option \<times> extractor \<times> layer_event list" where
  "layer1_block L W x ev network_requests start_date end_date =
     (case try_layer1_api_direct L (w_today W) (w_http1 W) network_requests start_date end_date of
        (layer1_result, cands) \<Rightarrow>
          (let x1 = (set_candidates cands x)\<lparr>x_layer1_result := Some layer1_result\<rparr>
           in if lr_success layer1_result
              then (Some (layer_success_result 1 x1 layer1_result
                      [''direct API replay succeeded with '' @ str_int (lr_data_count layer1_result)
                         @ '' items'',
                       ''date parameters: '' @ show_keys
                          (case lr_best_candidate layer1_result of
                             None \<Rightarrow> [] | Some c \<Rightarrow> map fst (c_date_params c))]),
                    x1, ev @ [RanLayer1])
              else layer2_block W x1 (ev @ [RanLayer1])))"

text \<open>
  \<^verbatim>\<open>extract_with_three_layers\<close>: the returned result (\<open>None\<close> when an exception
  reaches the caller), the extractor afterwards, and the layers that ran, in order.
\<close>

definition extract_with_three_layers ::
  "pylib \<Rightarrow> world \<Rightarrow> extractor \<Rightarrow> pydict \<Rightarrow> string \<Rightarrow> string
     \<Rightarrow> extraction_result option \<times> extractor \<times> layer_event list" where
  "extract_with_three_layers L W x network_requests start_date end_date =
     (case layer0_block L W x start_date end_date of
        (Return r, x0, ev) \<Rightarrow> (Some r, x0, ev)
      | (Raise, x0, ev) \<Rightarrow> (None, x0, ev)
      | (Continue, x0, ev) \<Rightarrow> layer1_block L W x0 ev network_requests start_date end_date)"

section \<open>Concrete inputs\<close>

text \<open>
  To run the model a library is needed. \<open>demo_lib\<close> splits and builds a plain URL
  \<^verbatim>\<open>scheme://host/path?k=v&k=v\<close>, whose keys and values need no escape, as
  \<^verbatim>\<open>urllib\<close> does (a list value gives one pair per element); it parses the one JSON
  body used below; its \<open>timestamp\<close> is never called, since no input below uses an epoch
  format.
\<close>

fun split_on :: "char \<Rightarrow> string \<Rightarrow> string list" where
  "split_on sep [] = [[]]"
| "split_on sep (c # cs) =
     (if c = sep then [] # split_on sep cs
      else (case split_on sep cs of [] \<Rightarrow> [[c]] | p # ps \<Rightarrow> (c # p) # ps))"

definition demo_urlparse :: "string \<Rightarrow> parsed_url option" where
  "demo_urlparse u =
     (let scheme = takeWhile (\<lambda>c. c \<noteq> CHR '':'') u;
          r = drop (length scheme + 3) u;
          netloc = takeWhile (\<lambda>c. c \<noteq> CHR ''/'' \<and> c \<noteq> CHR ''?'') r;
          r2 = drop (length netloc) r;
          path = takeWhile (\<lambda>c. c \<noteq> CHR ''?'') r2
      in Some \<lparr>u_scheme = scheme, u_netloc = netloc, u_path = path, u_params = [],
               u_query = drop (length path + 1) r2, u_fragment = []\<rparr>)"

definition demo_urlunparse :: "parsed_url \<Rightarrow> string" where
  "demo_urlunparse p =
     u_scheme p @ ''://'' @ u_netloc p @ u_path p
       @ (if u_query p = [] then [] else ''?'' @ u_query p)"

fun add_value :: "(string \<times> string list) list \<Rightarrow> string \<Rightarrow> string \<Rightarrow> (string \<times> string list) list" where
  "add_value [] k v = [(k, [v])]"
| "add_value ((k', vs) # d) k v =
     (if k' = k then (k', vs @ [v]) # d else (k', vs) # add_value d k v)"

definition demo_parse_qs :: "bool \<Rightarrow> string \<Rightarrow> (string \<times> string list) list" where
  "demo_parse_qs keep_blank_values qs =
     foldl (\<lambda>acc piece.
              (let k = takeWhile (\<lambda>c. c \<noteq> CHR ''='') piece; v = drop (length k + 1) piece
               in if piece = [] \<or> (v = [] \<and> \<not> keep_blank_values) then acc else add_value acc k v))
       [] (split_on CHR ''&'' qs)"

fun encode_item :: "string \<times> pyval \<Rightarrow> string list" where
  "encode_item (k, PList xs) = map (\<lambda>x. k @ ''='' @ py_str x) xs"
| "encode_item (k, v) = [k @ ''='' @ py_str v]"

fun join_amp :: "string list \<Rightarrow> string" where
  "join_amp [] = []"
| "join_amp [x] = x"
| "join_amp (x # y # ys) = x @ ''&'' @ join_amp (y # ys)"

definition demo_urlencode :: "pydict \<Rightarrow> string" where
  "demo_urlencode d = join_amp (concat (map encode_item d))"

definition demo_body :: string where
  "demo_body = ''{\"seDate\": [\"2024-01-01\", \"2024-01-01\"], \"pageSize\": 30}''"

definition demo_json_loads :: "string \<Rightarrow> pyval option" where
  "demo_json_loads t =
     (if t = demo_body
      then Some (PDict [(''seDate'', PList [PStr ''2024-01-01'', PStr ''2024-01-01'']),
                        (''pageSize'', PInt 30)])
      else None)"

definition demo_lib :: pylib where
  "demo_lib =
     \<lparr>urlparse = demo_urlparse, urlunparse = demo_urlunparse, parse_qs = demo_parse_qs,
      urlencode = demo_urlencode, json_loads = demo_json_loads, timestamp = (\<lambda>d. 0)\<rparr>"

text \<open>
  A server that answers every replay with a JSON object whose \<^verbatim>\<open>data\<close> list has
  \<open>n\<close> items.
\<close>

definition items_response :: "nat \<Rightarrow> http_outcome" where
  "items_response n = HttpResponse 200 (PDict [(''data'', PList (replicate n (PInt 1)))])"

text \<open>
  A page on which the scanning script finds nothing: the script returns its initial
  \<^verbatim>\<open>results\<close> object, whose \<^verbatim>\<open>error\<close> is \<^verbatim>\<open>null\<close>. The controller of the repository has
  no \<^verbatim>\<open>get_intercepted_apis\<close>.
\<close>

definition empty_scan :: pyval where
  "empty_scan = PDict [(''found'', PBool False), (''api_configs'', PList []),
                       (''error'', PNone), (''scanned_vars'', PList [])]"

definition plain_browser :: browser where
  "plain_browser =
     \<lparr>br_page = Some \<lparr>pg_url = ''https://site/list.html'', pg_evaluate = Some empty_scan\<rparr>,
      br_intercepted = None\<rparr>"

definition no_requests :: pydict where
  "no_requests = [(''all_requests'', PList []), (''api_requests'', PList [])]"

text \<open>
  The world of a total failure: nothing in the page's globals, no captured request,
  no date control found by Layer 2, no LLM.
\<close>

definition failing_world :: world where
  "failing_world =
     \<lparr>w_browser = Some plain_browser, w_llm = False, w_today = ''2024-06-01'',
      w_http0 = (\<lambda>r. HttpRaises), w_http1 = (\<lambda>i r. HttpRaises),
      w_layer2 = (layer_failure ''no common date control detected'', None),
      w_layer3 = (layer_failure ''browser or LLM missing'', None)\<rparr>"

text \<open>The same world without a browser, where Layer 0 and Layer 2 are skipped.\<close>

definition headless_world :: world where
  "headless_world = failing_world\<lparr>w_browser := None, w_http1 := (\<lambda>i r. items_response 5)\<rparr>"

text \<open>The captured request of the end-to-end example of the specification.\<close>

definition example_requests :: pydict where
  "example_requests =
     [(''all_requests'',
         PList [PDict [(''url'', PStr ''https://site/x?startDate=2024-01-01&endDate=2024-01-31&pageNo=1''),
                       (''method'', PStr ''GET'')]]),
      (''api_requests'', PList [])]"

text \<open>
  A \<^verbatim>\<open>POST\<close> to a bulletin query with a start date, an end date and a page number,
  captured among the API requests.
\<close>

definition bulletin_url :: string where
  "bulletin_url = ''https://site/api/bulletin/query?startDate=2024-01-01&endDate=2024-01-31&page=1''"

definition bulletin_requests :: pydict where
  "bulletin_requests =
     [(''all_requests'', PList []),
      (''api_requests'',
         PList [PDict [(''url'', PStr bulletin_url), (''method'', PStr ''POST'')]])]"


definition notice_url :: string where
  "notice_url = ''https://site/notice?date=2024-01-01''"











section \<open>Properties of response validation\<close>

lemma count_nested_nonneg: "0 \<le> c \<Longrightarrow> 0 \<le> count_nested v ks c"
  by (induction ks) (auto split: option.splits pyval.splits)

lemma count_keys_nonneg: "0 \<le> c \<Longrightarrow> 0 \<le> count_keys d ks c"
  by (induction ks arbitrary: c) (auto split: option.splits pyval.splits simp: count_nested_nonneg)

lemma count_page_help_nonneg: "0 \<le> c \<Longrightarrow> 0 \<le> count_page_help d c"
  by (auto simp: count_page_help_def Let_def split: option.splits pyval.splits)

lemma count_items_nonneg: "0 \<le> count_items d"
  by (simp add: count_items_def count_page_help_nonneg count_keys_nonneg)



text \<open>
  C10. A parsed response that is not an object (a top-level array of any length, a
  string, a number) is always reported as a failure with count 0; a success is only
  ever reported for an object.
\<close>

theorem validate_response_non_object_fails:
  "(\<forall>d. data \<noteq> PDict d) \<longrightarrow>
     fst (validate_response data) = False
     \<and> fst (snd (validate_response data)) = 0
     \<and> snd (snd (validate_response data)) \<in> {Some Unparsable, Some NotAnObject}"
  by (cases data) (auto simp: validate_response_def)

theorem validate_response_non_object_fails_witness:
  "validate_response (PList [PDict [(''id'', PInt 1)], PDict [(''id'', PInt 2)]])
     = (False, 0, Some NotAnObject)"
  using validate_response_non_object_fails
          [of "PList [PDict [(''id'', PInt 1)], PDict [(''id'', PInt 2)]]"]
  by (simp add: validate_response_def)

section \<open>Properties of the recogniser\<close>

lemma map_of_dict_set: "map_of (dict_set d k v) = (map_of d)(k \<mapsto> v)"
  by (induction d) (auto simp: fun_upd_twist)

lemma keys_dict_set: "fst ` set (dict_set d k v) = insert k (fst ` set d)"
  using arg_cong [OF map_of_dict_set [of d k v], of dom] by (simp add: dom_map_of_conv_image_fst)

lemma identify_step_keys:
  "fst ` set (identify_step dp kv)
     \<subseteq> fst ` set dp \<union> {k. k = fst kv \<and> lower k \<notin> set noise_param_names}"
  by (auto simp: identify_step_def Let_def keys_dict_set
      split: pyval.splits list.splits option.splits if_splits)

lemma identify_fold_keys:
  "fst ` set (foldl identify_step dp params)
     \<subseteq> fst ` set dp \<union> {k. lower k \<notin> set noise_param_names}"
proof (induction params arbitrary: dp)
  case Nil
  then show ?case by simp
next
  case (Cons kv params)
  have "fst ` set (foldl identify_step (identify_step dp kv) params)
          \<subseteq> fst ` set (identify_step dp kv) \<union> {k. lower k \<notin> set noise_param_names}"
    by (rule Cons.IH)
  also have "\<dots> \<subseteq> fst ` set dp \<union> {k. lower k \<notin> set noise_param_names}"
    using identify_step_keys [of dp kv] by auto
  finally show ?case by simp
qed

text \<open>
  C4. A parameter whose lower-cased name is one of the noise names is never among the
  date parameters \<^verbatim>\<open>_identify_date_params\<close> returns, whatever its value and whatever
  else the parameter map holds.
\<close>

theorem identify_date_params_rejects_noise:
  "lower k \<in> set noise_param_names \<Longrightarrow> k \<notin> fst ` set (identify_date_params params)"
  using identify_fold_keys [of "[]" params] by (auto simp: identify_date_params_def)

theorem identify_date_params_rejects_noise_witness:
  "lower [CHR ''_''] \<in> set noise_param_names
   \<and> value_format_of ''1700000000000'' = Some ''timestamp_ms''
   \<and> [CHR ''_''] \<notin> fst ` set (identify_date_params
         [([CHR ''_''], PStr ''1700000000000''), (''startDate'', PStr ''2024-01-01'')])
   \<and> identify_date_params [([CHR ''_''], PStr ''1700000000000''), (''startDate'', PStr ''2024-01-01'')]
       = [(''startDate'', ''YYYY-MM-DD'')]"
proof -
  have h: "lower [CHR ''_''] \<in> set noise_param_names" by code_simp
  have v: "value_format_of ''1700000000000'' = Some ''timestamp_ms''" by code_simp
  have e: "identify_date_params
             [([CHR ''_''], PStr ''1700000000000''), (''startDate'', PStr ''2024-01-01'')]
           = [(''startDate'', ''YYYY-MM-DD'')]" by code_simp
  from identify_date_params_rejects_noise [OF h] h v e show ?thesis by blast
qed

section \<open>Properties of the confidence\<close>

lemma bonus_lower: "c \<le> foldl (\<lambda>c p. if P p then c + (0.05::real) else c) c ps"
proof (induction ps arbitrary: c)
  case Nil
  show ?case by simp
next
  case (Cons p ps)
  have "c \<le> (if P p then c + (0.05::real) else c)" by simp
  also have "\<dots> \<le> foldl (\<lambda>c p. if P p then c + (0.05::real) else c) (if P p then c + 0.05 else c) ps"
    by (rule Cons.IH)
  finally show ?case by simp
qed

lemma bonus_upper:
  "foldl (\<lambda>c p. if P p then c + (0.05::real) else c) c ps \<le> c + 0.05 * real (length ps)"
proof (induction ps arbitrary: c)
  case Nil
  show ?case by simp
next
  case (Cons p ps)
  have "foldl (\<lambda>c p. if P p then c + (0.05::real) else c) (if P p then c + 0.05 else c) ps
          \<le> (if P p then c + 0.05 else c) + 0.05 * real (length ps)"
    by (rule Cons.IH)
  also have "\<dots> \<le> c + 0.05 * real (length (p # ps))" by (simp add: algebra_simps)
  finally show ?case by simp
qed

lemma all_noise_iff:
  "all_noise dp \<longleftrightarrow> dp \<noteq> [] \<and> (\<forall>kv \<in> set dp. lower (fst kv) \<in> set noise_param_names)"
  by (simp add: all_noise_def list_all_iff)

lemma confidence_unfold:
  assumes "urlparse L url = Some parsed"
  shows "calculate_confidence L url method params dp =
     Some (min ((foldl (\<lambda>c p. if lower p \<in> set (map (\<lambda>kv. lower (fst kv)) params)
                               then c + 0.05 else c)
             ((if length dp = 2 then 0.4 else if length dp = 1 then 0.2
               else if length dp > 2 then 0.1 else 0)
               - (if all_noise dp then 0.5 else 0)
               + (if api_path_match (lower (u_path parsed)) then 0.1 else 0)
               + (if contains_any (lower (u_path parsed)) bulletin_tokens then 0.2 else 0))
             common_api_params)
            + (if method = ''POST'' then 0.1 else 0)) 1)"
  using assms by (simp add: calculate_confidence_def Let_def)

text \<open>
  C7. A \<^verbatim>\<open>POST\<close> with exactly two date parameters, neither of them a noise name, and
  a bulletin token in its URL path has a confidence strictly above that of a \<^verbatim>\<open>GET\<close>
  with exactly one date parameter (whatever its name) and no API-path or bulletin token
  in its path: the first is at least 0.7, the second at most 0.5.
\<close>

theorem post_bulletin_pair_outscores_get_single:
  assumes s1: "calculate_confidence L url1 ''POST'' params1 dp1 = Some s1"
    and n1: "length dp1 = 2"
    and nn: "\<forall>kv \<in> set dp1. lower (fst kv) \<notin> set noise_param_names"
    and p1: "urlparse L url1 = Some p1"
    and b1: "contains_any (lower (u_path p1)) bulletin_tokens"
    and s2: "calculate_confidence L url2 ''GET'' params2 dp2 = Some s2"
    and n2: "length dp2 = 1"
    and p2: "urlparse L url2 = Some p2"
    and a2: "\<not> api_path_match (lower (u_path p2))"
    and b2: "\<not> contains_any (lower (u_path p2)) bulletin_tokens"
  shows "s2 < s1"
proof -
  from n1 nn have an: "\<not> all_noise dp1" by (cases dp1) (auto simp: all_noise_iff)
  let ?f1 = "\<lambda>c p. if lower p \<in> set (map (\<lambda>kv. lower (fst kv)) params1) then c + (0.05::real) else c"
  let ?f2 = "\<lambda>c p. if lower p \<in> set (map (\<lambda>kv. lower (fst kv)) params2) then c + (0.05::real) else c"
  define base1 :: real
    where "base1 = 0.4 + (if api_path_match (lower (u_path p1)) then 0.1 else 0) + 0.2"
  define base2 :: real where "base2 = 0.2 - (if all_noise dp2 then 0.5 else 0)"
  have e1: "s1 = min (foldl ?f1 base1 common_api_params + 0.1) 1"
    using s1 n1 an b1 by (simp add: confidence_unfold [OF p1] base1_def)
  have e2: "s2 = min (foldl ?f2 base2 common_api_params) 1"
    using s2 n2 a2 b2 by (simp add: confidence_unfold [OF p2] base2_def)
  have "0.6 \<le> base1" by (simp add: base1_def)
  with bonus_lower [of base1 "\<lambda>p. lower p \<in> set (map (\<lambda>kv. lower (fst kv)) params1)" common_api_params]
  have lo: "0.7 \<le> s1" unfolding e1 by simp
  have "base2 \<le> 0.2" by (simp add: base2_def)
  moreover have "length common_api_params = 6" by (simp add: common_api_params_def)
  ultimately have hi: "s2 \<le> 0.5"
    using bonus_upper [of "\<lambda>p. lower p \<in> set (map (\<lambda>kv. lower (fst kv)) params2)" base2 common_api_params]
    unfolding e2 by simp
  from lo hi show ?thesis by simp
qed

theorem post_bulletin_pair_outscores_get_single_witness:
  "calculate_confidence demo_lib bulletin_url ''POST''
      [(''startDate'', PStr ''2024-01-01''), (''endDate'', PStr ''2024-01-31''), (''page'', PStr ''1'')]
      [(''startDate'', ''YYYY-MM-DD''), (''endDate'', ''YYYY-MM-DD'')] = Some 0.85
   \<and> calculate_confidence demo_lib notice_url ''GET''
      [(''date'', PStr ''2024-01-01'')] [(''date'', ''YYYY-MM-DD'')] = Some 0.2
   \<and> (0.2 :: real) < 0.85"
proof -
  let ?dp1 = "[(''startDate'', ''YYYY-MM-DD''), (''endDate'', ''YYYY-MM-DD'')]"
  let ?dp2 = "[(''date'', ''YYYY-MM-DD'')]"
  have s1: "calculate_confidence demo_lib bulletin_url ''POST''
      [(''startDate'', PStr ''2024-01-01''), (''endDate'', PStr ''2024-01-31''), (''page'', PStr ''1'')]
      ?dp1 = Some 0.85" by code_simp
  have n1: "length ?dp1 = 2" by simp
  have nn: "\<forall>kv \<in> set ?dp1. lower (fst kv) \<notin> set noise_param_names" by code_simp
  have p1: "urlparse demo_lib bulletin_url
      = Some \<lparr>u_scheme = ''https'', u_netloc = ''site'', u_path = ''/api/bulletin/query'',
               u_params = [], u_query = ''startDate=2024-01-01&endDate=2024-01-31&page=1'',
               u_fragment = []\<rparr>" by code_simp
  have b1: "contains_any (lower (u_path \<lparr>u_scheme = ''https'', u_netloc = ''site'',
               u_path = ''/api/bulletin/query'', u_params = [],
               u_query = ''startDate=2024-01-01&endDate=2024-01-31&page=1'',
               u_fragment = []\<rparr>)) bulletin_tokens" by code_simp
  have s2: "calculate_confidence demo_lib notice_url ''GET'' [(''date'', PStr ''2024-01-01'')] ?dp2
      = Some 0.2" by code_simp
  have n2: "length ?dp2 = 1" by simp
  have p2: "urlparse demo_lib notice_url
      = Some \<lparr>u_scheme = ''https'', u_netloc = ''site'', u_path = ''/notice'',
               u_params = [], u_query = ''date=2024-01-01'', u_fragment = []\<rparr>" by code_simp
  have a2: "\<not> api_path_match (lower (u_path \<lparr>u_scheme = ''https'', u_netloc = ''site'',
               u_path = ''/notice'', u_params = [], u_query = ''date=2024-01-01'',
               u_fragment = []\<rparr>))" by code_simp
  have b2: "\<not> contains_any (lower (u_path \<lparr>u_scheme = ''https'', u_netloc = ''site'',
               u_path = ''/notice'', u_params = [], u_query = ''date=2024-01-01'',
               u_fragment = []\<rparr>)) bulletin_tokens" by code_simp
  from post_bulletin_pair_outscores_get_single [OF s1 n1 nn p1 b1 s2 n2 p2 a2 b2] s1 s2
  show ?thesis by simp
qed

section \<open>Properties of the replay\<close>









section \<open>Properties of the orchestrator and of request analysis\<close>

lemma layer0_block_events:
  "layer0_block L W x s e = (st, x0, ev) \<Longrightarrow> RanLayer1 \<notin> set ev \<and> RanLayer2 \<notin> set ev \<and> RanLayer3 \<notin> set ev"
  by (auto simp: layer0_block_def Let_def split: option.splits if_splits)

lemma set_candidates_layer1 [simp]: "x_layer1_result (set_candidates cs x) = x_layer1_result x"
  by (cases cs) (simp_all add: set_candidates_def)

lemma layer3_block_layer1:
  "layer3_block W x ev = (res, x', ev') \<Longrightarrow> x_layer1_result x' = x_layer1_result x"
  by (auto simp: layer3_block_def Let_def split: if_splits)

lemma layer2_block_layer1:
  "layer2_block W x ev = (res, x', ev') \<Longrightarrow> x_layer1_result x' = x_layer1_result x"
  by (auto simp: layer2_block_def Let_def split: if_splits dest: layer3_block_layer1)

text \<open>
  C2. Whenever Layer 1 ran and its result, the one left in \<^verbatim>\<open>self._layer1_result\<close>, is a
  success, the orchestrator returns a result with \<^verbatim>\<open>layer = 1\<close> whose
  \<^verbatim>\<open>layer2_result\<close> and \<^verbatim>\<open>layer3_result\<close> are \<^verbatim>\<open>None\<close>, and neither Layer 2 nor
  Layer 3 has run. This holds for every library, world, extractor state, request set
  and date range.
\<close>

theorem layer1_success_short_circuits:
  assumes run: "extract_with_three_layers L W x nr s e = (res, x', ev)"
    and ran: "RanLayer1 \<in> set ev"
    and l1: "x_layer1_result x' = Some l1"
    and ok: "lr_success l1"
  shows "\<exists>r. res = Some r \<and> er_success r \<and> er_layer r = 1
             \<and> er_layer1_result r = Some l1 \<and> er_best_candidate r = lr_best_candidate l1
             \<and> er_layer2_result r = None \<and> er_layer3_result r = None
             \<and> RanLayer2 \<notin> set ev \<and> RanLayer3 \<notin> set ev"
proof -
  obtain st x0 ev0 where l0: "layer0_block L W x s e = (st, x0, ev0)"
    by (cases "layer0_block L W x s e") auto
  note e0 = layer0_block_events [OF l0]
  show ?thesis
  proof (cases st)
    case (Return r)
    with run l0 ran e0 show ?thesis by (simp add: extract_with_three_layers_def)
  next
    case Raise
    with run l0 ran e0 show ?thesis by (simp add: extract_with_three_layers_def)
  next
    case Continue
    with run l0 have b1: "layer1_block L W x0 ev0 nr s e = (res, x', ev)"
      by (simp add: extract_with_three_layers_def)
    obtain lr cands where t1: "try_layer1_api_direct L (w_today W) (w_http1 W) nr s e = (lr, cands)"
      by (cases "try_layer1_api_direct L (w_today W) (w_http1 W) nr s e") auto
    let ?x1 = "(set_candidates cands x0)\<lparr>x_layer1_result := Some lr\<rparr>"
    show ?thesis
    proof (cases "lr_success lr")
      case True
      with b1 t1 l1 e0 show ?thesis
        by (auto simp: layer1_block_def Let_def layer_success_result_def)
    next
      case False
      with b1 t1 have "layer2_block W ?x1 (ev0 @ [RanLayer1]) = (res, x', ev)"
        by (simp add: layer1_block_def Let_def)
      from layer2_block_layer1 [OF this] l1 have "l1 = lr" by simp
      with ok False show ?thesis by simp
    qed
  qed
qed

theorem layer1_success_short_circuits_witness:
  "map_option er_layer
     (fst (extract_with_three_layers demo_lib headless_world init_extractor example_requests
             ''2024-02-01'' ''2024-02-05'')) = Some 1
   \<and> map_option er_layer2_result
     (fst (extract_with_three_layers demo_lib headless_world init_extractor example_requests
             ''2024-02-01'' ''2024-02-05'')) = Some None
   \<and> map_option er_layer3_result
     (fst (extract_with_three_layers demo_lib headless_world init_extractor example_requests
             ''2024-02-01'' ''2024-02-05'')) = Some None
   \<and> snd (snd (extract_with_three_layers demo_lib headless_world init_extractor example_requests
             ''2024-02-01'' ''2024-02-05'')) = [RanLayer1]"
proof -
  let ?run = "extract_with_three_layers demo_lib headless_world init_extractor example_requests
             ''2024-02-01'' ''2024-02-05''"
  have run: "?run = (fst ?run, fst (snd ?run), snd (snd ?run))" by simp
  have ev: "snd (snd ?run) = [RanLayer1]" by code_simp
  then have ran: "RanLayer1 \<in> set (snd (snd ?run))" by simp
  have "map_option lr_success (x_layer1_result (fst (snd ?run))) = Some True" by code_simp
  then obtain l1 where l1: "x_layer1_result (fst (snd ?run)) = Some l1" and ok: "lr_success l1"
    by (cases "x_layer1_result (fst (snd ?run))") auto
  from layer1_success_short_circuits [OF run ran l1 ok] ev show ?thesis by auto
qed

text \<open>
  C1 fails on the code. On a page where the scanning script finds nothing, Layer 0
  records the script's \<^verbatim>\<open>error: null\<close> as its own error, \<^verbatim>\<open>None\<close>. When the other
  layers fail too, the last statement concatenates a string with that \<^verbatim>\<open>None\<close>, and
  the \<^verbatim>\<open>TypeError\<close> reaches the caller: no result is returned.
\<close>

theorem total_failure_raises:
  "fst (extract_with_three_layers demo_lib failing_world init_extractor no_requests
          ''2024-02-01'' ''2024-02-05'') = None
   \<and> x_layer0_result (fst (snd (extract_with_three_layers demo_lib failing_world init_extractor
          no_requests ''2024-02-01'' ''2024-02-05''))) = Some (layer0_failure PNone)
   \<and> snd (snd (extract_with_three_layers demo_lib failing_world init_extractor no_requests
          ''2024-02-01'' ''2024-02-05'')) = [RanLayer0, RanLayer1, RanLayer2]"
  by code_simp

lemma calculate_confidence_le_one: "calculate_confidence L u m p d = Some s \<Longrightarrow> s \<le> 1"
  by (auto simp: calculate_confidence_def Let_def split: option.splits)

text \<open>
  C5 fails on the code. \<^verbatim>\<open>_calculate_confidence\<close> clamps its result to 1.0, but
  \<^verbatim>\<open>analyze_requests\<close> adds 0.2 to every candidate from \<^verbatim>\<open>api_requests\<close>, and the
  initiator adjustment, after the clamp.
\<close>

theorem api_request_confidence_exceeds_one:
  "map_option (map c_confidence) (analyze_requests demo_lib bulletin_requests) = Some [1.05]"
  by code_simp


section \<open>Properties of Layer 1\<close>

lemma looks_like_ignores_verification [simp]:
  "looks_like_real_date_filter (c\<lparr>c_is_verified := a, c_verification_result := b\<rparr>)
     = looks_like_real_date_filter c"
  by (simp add: looks_like_real_date_filter_def)







lemma validate_response_positive:
  "validate_response data = (True, n, r) \<Longrightarrow> 0 < n"
proof (cases data)
  case (PDict d)
  assume a: "validate_response data = (True, n, r)"
  have "0 \<le> count_items d" by (rule count_items_nonneg)
  with a PDict show ?thesis by (auto simp: validate_response_def Let_def split: if_splits)
qed (auto simp: validate_response_def)

lemma verify_success_positive:
  assumes "verify_candidate L t respond c s e = Some r" and "v_success r"
  shows "0 < v_data_count r"
  using assms
  by (auto simp: verify_candidate_def Let_def
      split: option.splits prod.splits http_outcome.splits if_splits
      dest: validate_response_positive)


lemma layer_failure_not_success [simp]: "\<not> lr_success (layer_failure msg)"
  by (simp add: layer_failure_def)





section \<open>Properties of candidate construction\<close>







end
